theory Spec2Isabelle
  imports Main "HOL-Library.Word"
begin

section \<open>Strings and characters\<close>

text \<open>
  The handler works on JavaScript strings. A string is modelled as a \<open>char list\<close>.
  The regular expression of the handler has neither the \<open>u\<close> nor the \<open>i\<close> flag, so
  \<open>\w\<close> is exactly the ASCII class \<open>[A-Za-z0-9_]\<close>; every other character, ASCII or
  not, is a non-word character. Every token the expression matches therefore consists
  of ASCII characters only, on which \<open>toLowerCase\<close> maps \<open>A-Z\<close> to \<open>a-z\<close> and leaves
  the rest alone.
\<close>

definition is_word_char :: "char \<Rightarrow> bool" where
  "is_word_char c =
     (let k = (of_char c :: nat)
      in (48 \<le> k \<and> k \<le> 57) \<or> (65 \<le> k \<and> k \<le> 90) \<or> k = 95 \<or> (97 \<le> k \<and> k \<le> 122))"

definition to_lower_char :: "char \<Rightarrow> char" where
  "to_lower_char c =
     (let k = (of_char c :: nat) in if 65 \<le> k \<and> k \<le> 90 then char_of (k + 32) else c)"

definition toLowerCase :: "string \<Rightarrow> string" where
  "toLowerCase s = map to_lower_char s"

section \<open>The regular expression of the handler\<close>

text \<open>
  The word size of a request is a Number of the runtime. It is taken to be an integer
  of 54 bits, read as signed: an integer from \<open>-2^53\<close> to \<open>2^53 - 1\<close>. A Number
  holds every such integer exactly, and \<open>String\<close>, which the template literal
  applies, writes it with exactly its decimal digits, without an exponent.

  The handler builds \<^verbatim>\<open>new RegExp(`\\b\\w{${wordSize},}\\b`, 'g')\<close>. The pattern is a
  sequence of atoms. For a number \<open>n \<ge> 0\<close> the braces are a quantifier and the pattern is
  \<open>\b\<close>, \<open>\w{n,}\<close>, \<open>\b\<close>. For a negative number the text between the braces is not
  a quantifier, and without the \<open>u\<close> flag the pattern is still accepted: the braces
  and what is between them are literal characters that follow a single \<open>\w\<close>.
\<close>

type_synonym word_size = "54 word"

datatype atom =
    Boundary            \<comment> \<open>\<open>\b\<close>\<close>
  | WordAtLeast nat     \<comment> \<open>\<open>\w{n,}\<close>, greedy\<close>
  | Word1               \<comment> \<open>\<open>\w\<close>\<close>
  | Lit char            \<comment> \<open>a literal character\<close>

fun digit_char :: "nat \<Rightarrow> char" where
  "digit_char d = char_of (48 + d)"

fun digits :: "nat \<Rightarrow> string" where
  "digits n = (if n < 10 then [digit_char n] else digits (n div 10) @ [digit_char (n mod 10)])"

definition number_to_string :: "word_size \<Rightarrow> string" where
  "number_to_string wordSize =
     (let i = sint wordSize
      in if i < 0 then CHR ''-'' # digits (nat (- i)) else digits (nat i))"

definition wordPattern :: "nat \<Rightarrow> atom list" where
  "wordPattern n = [Boundary, WordAtLeast n, Boundary]"

definition wordRegExp :: "word_size \<Rightarrow> atom list" where
  "wordRegExp wordSize =
     (if 0 \<le> sint wordSize then wordPattern (nat (sint wordSize))
      else [Boundary, Word1] @ map Lit (''{'' @ number_to_string wordSize @ '',}'') @ [Boundary])"

text \<open>
  Matching at one position. \<open>prev\<close> is the character before the position (\<open>None\<close> at
  the start of the text), \<open>s\<close> the text from the position on. The result is the matched
  text. \<open>\b\<close> holds where exactly one of the two neighbours is a word character.
  \<open>\w{n,}\<close> is greedy: it first takes the whole run of word characters and gives
  characters back one at a time, down to \<open>n\<close>, until the rest of the pattern matches.
\<close>

definition word_before :: "char option \<Rightarrow> bool" where
  "word_before prev = (case prev of None \<Rightarrow> False | Some c \<Rightarrow> is_word_char c)"

definition word_after :: "string \<Rightarrow> bool" where
  "word_after s = (case s of [] \<Rightarrow> False | c # _ \<Rightarrow> is_word_char c)"

definition at_boundary :: "char option \<Rightarrow> string \<Rightarrow> bool" where
  "at_boundary prev s = (word_before prev \<noteq> word_after s)"

primrec first_some :: "'a option list \<Rightarrow> 'a option" where
  "first_some [] = None"
| "first_some (x # xs) = (case x of Some y \<Rightarrow> Some y | None \<Rightarrow> first_some xs)"

definition char_before :: "char option \<Rightarrow> string \<Rightarrow> nat \<Rightarrow> char option" where
  "char_before prev s k = (if k = 0 then prev else Some (s ! (k - 1)))"

fun match_here :: "atom list \<Rightarrow> char option \<Rightarrow> string \<Rightarrow> string option" where
  "match_here [] prev s = Some []"
| "match_here (Boundary # r) prev s =
     (if at_boundary prev s then match_here r prev s else None)"
| "match_here (WordAtLeast n # r) prev s =
     first_some
       (map (\<lambda>k. map_option (\<lambda>m. take k s @ m) (match_here r (char_before prev s k) (drop k s)))
            (rev [n ..< Suc (length (takeWhile is_word_char s))]))"
| "match_here (Word1 # r) prev s =
     (case s of [] \<Rightarrow> None
      | c # s' \<Rightarrow> if is_word_char c then map_option (\<lambda>m. c # m) (match_here r (Some c) s') else None)"
| "match_here (Lit d # r) prev s =
     (case s of [] \<Rightarrow> None
      | c # s' \<Rightarrow> if c = d then map_option (\<lambda>m. c # m) (match_here r (Some c) s') else None)"

text \<open>
  \<open>text.match(re)\<close> with the \<open>g\<close> flag: the search goes through the positions from left
  to right. After a match it goes on behind the match, after an empty match one
  position further, and where nothing matches it tries the next position. The position
  behind the last character is tried as well.
\<close>

function match_all :: "atom list \<Rightarrow> char option \<Rightarrow> string \<Rightarrow> string list" where
  "match_all re prev [] = (case match_here re prev [] of None \<Rightarrow> [] | Some m \<Rightarrow> [m])"
| "match_all re prev (c # s) =
     (case match_here re prev (c # s) of
        None \<Rightarrow> match_all re (Some c) s
      | Some m \<Rightarrow>
          if m = [] then [] # match_all re (Some c) s
          else m # match_all re (Some (last m)) (drop (length m) (c # s)))"
  by pat_completeness auto
termination
  by (relation "measure (\<lambda>(re, prev, s). length s)") auto

section \<open>The word extractor\<close>

text \<open>
  \<open>new Set(xs)\<close> keeps the first occurrence of every element, in insertion order;
  \<open>Array.from\<close> lists the set in that order.
\<close>

definition set_add :: "'a list \<Rightarrow> 'a \<Rightarrow> 'a list" where
  "set_add s x = (if x \<in> set s then s else s @ [x])"

definition new_Set :: "'a list \<Rightarrow> 'a list" where
  "new_Set xs = foldl set_add [] xs"

text \<open>
  Lines 94 to 100 of the handler:
  \<^verbatim>\<open>Array.from(new Set((text.match(re) || []).map(w => w.toLowerCase())
                                  .filter(w => w.length >= wordSize)))\<close>
  \<open>extract_with\<close> is this expression for a pattern \<open>re\<close> and a minimum;
  \<open>extract_words\<close> is the expression as the handler has it, the pattern and the
  minimum both coming from the word size.
\<close>

definition extract_with :: "atom list \<Rightarrow> int \<Rightarrow> string \<Rightarrow> string list" where
  "extract_with re minimum text =
     new_Set (filter (\<lambda>w. minimum \<le> int (length w)) (map toLowerCase (match_all re None text)))"

definition extract_words :: "string \<Rightarrow> word_size \<Rightarrow> string list" where
  "extract_words text wordSize = extract_with (wordRegExp wordSize) (sint wordSize) text"

text \<open>
  The specification's reading of the extractor, for a minimum of at least one: the
  tokens are the maximal runs of word characters, from left to right.
\<close>

function word_runs :: "string \<Rightarrow> string list" where
  "word_runs [] = []"
| "word_runs (c # s) =
     (if is_word_char c
      then (c # takeWhile is_word_char s) # word_runs (dropWhile is_word_char s)
      else word_runs s)"
  by pat_completeness auto
termination
  by (relation "measure length") (auto simp: less_Suc_eq_le length_dropWhile_le)

definition tokens :: "nat \<Rightarrow> string \<Rightarrow> string list" where
  "tokens n txt = map toLowerCase (filter (\<lambda>w. n \<le> length w) (word_runs txt))"

definition first_index :: "'a list \<Rightarrow> 'a \<Rightarrow> nat" where
  "first_index xs x = length (takeWhile (\<lambda>y. y \<noteq> x) xs)"

section \<open>JavaScript values\<close>

text \<open>
  What \<open>response.json()\<close> yields and what the request carries are JavaScript values.
  \<open>Builtin\<close> stands for an object or function of the runtime itself; it is needed in
  one place, see \<open>icon_for\<close>. A missing property reads \<open>Undefined\<close>. Numbers of a
  payload are integers here: the handler only tests them for truthiness.
\<close>

datatype jsval =
    Undefined
  | Null
  | Bool bool
  | Num int
  | Str string
  | Arr "jsval list"
  | Obj "(string \<times> jsval) list"
  | Builtin string

datatype exn = TypeError | SyntaxError | AbortError

definition and_then :: "exn + 'a \<Rightarrow> ('a \<Rightarrow> exn + 'b) \<Rightarrow> exn + 'b" where
  "and_then m f = (case m of Inl e \<Rightarrow> Inl e | Inr x \<Rightarrow> f x)"

fun truthy :: "jsval \<Rightarrow> bool" where
  "truthy Undefined = False"
| "truthy Null = False"
| "truthy (Bool b) = b"
| "truthy (Num i) = (i \<noteq> 0)"
| "truthy (Str s) = (s \<noteq> [])"
| "truthy (Arr xs) = True"
| "truthy (Obj kvs) = True"
| "truthy (Builtin b) = True"

fun nullish :: "jsval \<Rightarrow> bool" where
  "nullish Undefined = True"
| "nullish Null = True"
| "nullish v = False"

text \<open>
  \<open>v[0]\<close> and \<open>v.name\<close>, for the property names the parser reads (meanings,
  definitions, definition, partOfSpeech, example): reading a property of \<open>undefined\<close>
  or \<open>null\<close> raises a TypeError; arrays, strings, numbers and booleans have no
  property of these names.
\<close>

fun index0 :: "jsval \<Rightarrow> exn + jsval" where
  "index0 Undefined = Inl TypeError"
| "index0 Null = Inl TypeError"
| "index0 (Arr xs) = Inr (case xs of [] \<Rightarrow> Undefined | x # _ \<Rightarrow> x)"
| "index0 (Str s) = Inr (case s of [] \<Rightarrow> Undefined | c # _ \<Rightarrow> Str [c])"
| "index0 (Obj kvs) = Inr (case map_of kvs ''0'' of None \<Rightarrow> Undefined | Some v \<Rightarrow> v)"
| "index0 v = Inr Undefined"

fun get_prop :: "jsval \<Rightarrow> string \<Rightarrow> exn + jsval" where
  "get_prop Undefined name = Inl TypeError"
| "get_prop Null name = Inl TypeError"
| "get_prop (Obj kvs) name = Inr (case map_of kvs name of None \<Rightarrow> Undefined | Some v \<Rightarrow> v)"
| "get_prop v name = Inr Undefined"

text \<open>
  \<open>v?.rest\<close>: when \<open>v\<close> is \<open>undefined\<close> or \<open>null\<close> the whole chain is \<open>undefined\<close>.
\<close>

definition optional :: "jsval \<Rightarrow> (jsval \<Rightarrow> exn + jsval) \<Rightarrow> exn + jsval" where
  "optional v rest = (if nullish v then Inr Undefined else rest v)"

section \<open>The definition source\<close>

record ExamWordDefinition =
  defn :: jsval            \<comment> \<open>the field \<open>definition\<close>\<close>
  partOfSpeech :: jsval
  example :: jsval
  icon :: jsval

definition examWordIcons :: "(string \<times> string) list" where
  "examWordIcons =
     [(''analyze'', [CHR 0xF0, CHR 0x9F, CHR 0x94, CHR 0x8D]),
      (''hypothesis'', [CHR 0xF0, CHR 0x9F, CHR 0xA7, CHR 0xAA]),
      (''research'', [CHR 0xF0, CHR 0x9F, CHR 0x93, CHR 0x8A]),
      (''theory'', [CHR 0xF0, CHR 0x9F, CHR 0x92, CHR 0xA1]),
      (''data'', [CHR 0xF0, CHR 0x9F, CHR 0x93, CHR 0x88]),
      (''method'', [CHR 0xF0, CHR 0x9F, CHR 0x94, CHR 0xAC]),
      (''conclusion'', [CHR 0xE2, CHR 0x9C, CHR 0x85]),
      (''evidence'', [CHR 0xF0, CHR 0x9F, CHR 0x95, CHR 0xB5, CHR 0xEF, CHR 0xB8, CHR 0x8F]),
      (''study'', [CHR 0xF0, CHR 0x9F, CHR 0x93, CHR 0x9A]),
      (''academic'', [CHR 0xF0, CHR 0x9F, CHR 0x8E, CHR 0x93]),
      (''knowledge'', [CHR 0xF0, CHR 0x9F, CHR 0x8C, CHR 0x9F]),
      (''complex'', [CHR 0xF0, CHR 0x9F, CHR 0xA7, CHR 0xA9]),
      (''terminology'', [CHR 0xF0, CHR 0x9F, CHR 0x92, CHR 0xAC]),
      (''sophisticated'', [CHR 0xF0, CHR 0x9F, CHR 0x8F, CHR 0x86]),
      (''linguistic'', [CHR 0xF0, CHR 0x9F, CHR 0x8C, CHR 0x90])]"

definition academic_icon :: string where
  "academic_icon = [CHR 0xF0, CHR 0x9F, CHR 0x8E, CHR 0x93]"

definition question_icon :: string where
  "question_icon = [CHR 0xE2, CHR 0x9D, CHR 0x93]"

text \<open>
  \<open>examWordIcons[key]\<close>. The table is an object literal, so besides its own keys it
  answers the two lowercase keys every object inherits, with an object of the runtime.
\<close>

definition examWordIcons_get :: "string \<Rightarrow> jsval" where
  "examWordIcons_get key =
     (case map_of examWordIcons key of
        Some i \<Rightarrow> Str i
      | None \<Rightarrow> if key = ''constructor'' \<or> key = ''__proto__'' then Builtin key else Undefined)"

definition icon_for :: "string \<Rightarrow> jsval" where
  "icon_for word =
     (let i = examWordIcons_get (toLowerCase word) in if truthy i then i else Str academic_icon)"

text \<open>The three fields of \<open>parse\<close>, lines 32 to 34, each an optional chain.\<close>

definition parse_definition :: "jsval \<Rightarrow> exn + jsval" where
  "parse_definition data =
     and_then (index0 data) (\<lambda>a. optional a (\<lambda>a.
     and_then (get_prop a ''meanings'') (\<lambda>b.
     and_then (index0 b) (\<lambda>c. optional c (\<lambda>c.
     and_then (get_prop c ''definitions'') (\<lambda>d.
     and_then (index0 d) (\<lambda>e. optional e (\<lambda>e.
     get_prop e ''definition''))))))))"

definition parse_partOfSpeech :: "jsval \<Rightarrow> exn + jsval" where
  "parse_partOfSpeech data =
     and_then (index0 data) (\<lambda>a. optional a (\<lambda>a.
     and_then (get_prop a ''meanings'') (\<lambda>b.
     and_then (index0 b) (\<lambda>c. optional c (\<lambda>c.
     get_prop c ''partOfSpeech'')))))"

definition parse_example :: "jsval \<Rightarrow> exn + jsval" where
  "parse_example data =
     and_then (index0 data) (\<lambda>a. optional a (\<lambda>a.
     and_then (get_prop a ''meanings'') (\<lambda>b.
     and_then (index0 b) (\<lambda>c. optional c (\<lambda>c.
     and_then (get_prop c ''definitions'') (\<lambda>d.
     and_then (index0 d) (\<lambda>e. optional e (\<lambda>e.
     get_prop e ''example''))))))))"

definition no_advanced :: string where
  "no_advanced = ''No advanced definition found.''"

definition parse_data :: "jsval \<Rightarrow> exn + ExamWordDefinition" where
  "parse_data data =
     and_then (parse_definition data) (\<lambda>d.
     and_then (parse_partOfSpeech data) (\<lambda>p.
     and_then (parse_example data) (\<lambda>x.
     Inr \<lparr>defn = (if truthy d then d else Str no_advanced),
          partOfSpeech = p, example = x, icon = Undefined\<rparr>)))"

record source =
  name :: string
  url :: "string \<Rightarrow> string"
  parse :: "jsval \<Rightarrow> exn + ExamWordDefinition"

definition dictionary_url :: "string \<Rightarrow> string" where
  "dictionary_url word = ''https://api.dictionaryapi.dev/api/v2/entries/en/'' @ word"

definition dictionary_source :: source where
  "dictionary_source =
     \<lparr>name = ''Academic Dictionary API'', url = dictionary_url, parse = parse_data\<rparr>"

definition academicSources :: "source list" where
  "academicSources = [dictionary_source]"

section \<open>The network and the cache\<close>

text \<open>
  What \<open>fetch\<close> does is a parameter: for each URL either the promise rejects (a
  TypeError when the network fails, an AbortError when the timer of 3000 ms aborts the
  request) or it resolves to a response, with its \<open>ok\<close> flag and with what
  \<open>response.json()\<close> gives, the parsed body or the error it rejects with.
  The state that outlives a call is the cache; \<open>fetched\<close> counts the requests sent
  to each URL.
\<close>

datatype response = Response bool "exn + jsval"

datatype fetch_result = Rejects exn | Resolves response

type_synonym network = "string \<Rightarrow> fetch_result"

record world =
  definitionCache :: "string \<rightharpoonup> ExamWordDefinition"
  fetched :: "string \<Rightarrow> nat"

text \<open>
  The \<open>try\<close> block of \<open>fetchWithTimeout\<close>, lines 48 to 60: \<open>Inl\<close> is an exception
  thrown inside it, \<open>Inr None\<close> leaving the block without a return (the response is
  not ok).
\<close>

definition fetchWithTimeout_try :: "network \<Rightarrow> source \<Rightarrow> string \<Rightarrow> exn + ExamWordDefinition option" where
  "fetchWithTimeout_try net src word =
     (case net (url src word) of
        Rejects e \<Rightarrow> Inl e
      | Resolves (Response ok body) \<Rightarrow>
          if ok then and_then body (\<lambda>data. and_then (parse src data) (\<lambda>d. Inr (Some d)))
          else Inr None)"

text \<open>
  \<open>fetchWithTimeout\<close>: the \<open>catch\<close> logs the exception and falls through to
  \<open>return null\<close>. The result is the settled promise of the async function.
\<close>

definition fetchWithTimeout ::
    "network \<Rightarrow> source \<Rightarrow> string \<Rightarrow> world \<Rightarrow> (exn + ExamWordDefinition option) \<times> world" where
  "fetchWithTimeout net src word w =
     ((case fetchWithTimeout_try net src word of Inl e \<Rightarrow> Inr None | Inr r \<Rightarrow> Inr r),
      w\<lparr>fetched := (fetched w)(url src word := Suc (fetched w (url src word)))\<rparr>)"

definition sentinel :: "string \<Rightarrow> ExamWordDefinition" where
  "sentinel word =
     \<lparr>defn = Str (''No academic definition found for '' @ word @ ''.''),
      partOfSpeech = Undefined, example = Undefined, icon = Str question_icon\<rparr>"

text \<open>The loop over the sources, lines 67 to 79.\<close>

fun try_sources ::
    "network \<Rightarrow> source list \<Rightarrow> string \<Rightarrow> world \<Rightarrow> (exn + ExamWordDefinition) \<times> world" where
  "try_sources net [] word w = (Inr (sentinel word), w)"
| "try_sources net (src # rest) word w =
     (case fetchWithTimeout net src word w of
        (Inl e, w') \<Rightarrow> (Inl e, w')
      | (Inr None, w') \<Rightarrow> try_sources net rest word w'
      | (Inr (Some d), w') \<Rightarrow>
          (let d' = d\<lparr>icon := icon_for word\<rparr>
           in (Inr d', w'\<lparr>definitionCache := (definitionCache w')(word \<mapsto> d')\<rparr>)))"

text \<open>
  \<open>fetchExamDefinitionWithFallback\<close>. An async function runs up to its first
  \<open>await\<close> when it is called: here the cache is read, and on a miss the request is
  sent. \<open>resume\<close> is the function from the result of the cache test on; run alone, the
  function is the cache test followed by \<open>resume\<close>.
\<close>

definition resume ::
    "network \<Rightarrow> string \<Rightarrow> ExamWordDefinition option \<Rightarrow> world \<Rightarrow> (exn + ExamWordDefinition) \<times> world" where
  "resume net word hit w =
     (case hit of Some d \<Rightarrow> (Inr d, w) | None \<Rightarrow> try_sources net academicSources word w)"

definition fetchExamDefinitionWithFallback ::
    "network \<Rightarrow> string \<Rightarrow> world \<Rightarrow> (exn + ExamWordDefinition) \<times> world" where
  "fetchExamDefinitionWithFallback net word w = resume net word (definitionCache w word) w"

text \<open>
  Two abbreviations for the statements below: what the one registered source gives for
  a word, with the icon attached (\<open>None\<close> when \<open>fetchWithTimeout\<close> returns
  \<open>null\<close>), and the entry a lookup that misses the cache returns.
\<close>

definition source_result :: "network \<Rightarrow> string \<Rightarrow> ExamWordDefinition option" where
  "source_result net word =
     (case fetchWithTimeout_try net dictionary_source word of
        Inr (Some d) \<Rightarrow> Some (d\<lparr>icon := icon_for word\<rparr>)
      | _ \<Rightarrow> None)"

definition miss_result :: "network \<Rightarrow> string \<Rightarrow> ExamWordDefinition" where
  "miss_result net word =
     (case source_result net word of Some d \<Rightarrow> d | None \<Rightarrow> sentinel word)"

section \<open>The request handler\<close>

record ExamMeaning =
  word :: string
  meaning :: jsval
  meaning_partOfSpeech :: jsval
  meaning_example :: jsval
  meaning_icon :: jsval

definition meaning_of :: "string \<Rightarrow> ExamWordDefinition \<Rightarrow> ExamMeaning" where
  "meaning_of w d =
     \<lparr>word = w, meaning = defn d, meaning_partOfSpeech = partOfSpeech d,
      meaning_example = example d, meaning_icon = icon d\<rparr>"

text \<open>
  \<open>Promise.allSettled(limitedWords.map(async ...))\<close>, lines 104 to 115. The calls of
  \<open>map\<close> start every lookup, in the order of the words: each reads the cache as it is
  at that moment. The lookups then settle in an order the handler does not control,
  given here by \<open>order\<close>, a permutation of the positions; the lookup at position \<open>i\<close>
  puts its result into slot \<open>i\<close>. When \<open>order\<close> is not a permutation of the positions
  it describes no run, and the result is \<open>None\<close>. The request of a lookup that misses
  the cache is counted in \<open>fetched\<close> when the lookup settles; the counts after the
  batch are those of the requests sent.
\<close>

type_synonym slot = "(exn + ExamMeaning) option"

definition settle ::
    "network \<Rightarrow> string list \<Rightarrow> ExamWordDefinition option list \<Rightarrow> slot list \<times> world \<Rightarrow> nat
       \<Rightarrow> slot list \<times> world" where
  "settle net ws hits st i =
     (case resume net (ws ! i) (hits ! i) (snd st) of
        (r, w') \<Rightarrow> ((fst st)[i := Some (map_sum id (meaning_of (ws ! i)) r)], w'))"

definition allSettled ::
    "network \<Rightarrow> nat list \<Rightarrow> string list \<Rightarrow> world \<Rightarrow> (slot list \<times> world) option" where
  "allSettled net order ws w =
     (if distinct order \<and> set order = set [0 ..< length ws]
      then Some (foldl (settle net ws (map (definitionCache w) ws))
                   (replicate (length ws) None, w) order)
      else None)"

text \<open>Lines 117 to 119: the values of the fulfilled results, in the order of the slots.\<close>

definition fulfilled_values :: "slot list \<Rightarrow> ExamMeaning list" where
  "fulfilled_values res =
     List.map_filter (\<lambda>r. case r of Some (Inr m) \<Rightarrow> Some m | _ \<Rightarrow> None) res"

datatype json_body =
    ErrorBody string                       \<comment> \<open>\<open>{ error }\<close>\<close>
  | FailureBody string exn                 \<comment> \<open>\<open>{ error, details }\<close>\<close>
  | MeaningsBody "ExamMeaning list" nat nat  \<comment> \<open>\<open>{ meanings, totalWordsFound, processedWords }\<close>\<close>
  | EndBody string                         \<comment> \<open>\<open>res.end(text)\<close>\<close>

record http_response =
  status :: nat
  headers :: "(string \<times> string list) list"
  body :: json_body

text \<open>
  The body of a request is the JSON object of the interface: its \<open>text\<close>, any value
  (\<open>Undefined\<close> when the object has none), and its \<open>wordSize\<close>, an integer as
  described with the regular expression, or missing.
  \<open>NoBody\<close> is a body that is \<open>null\<close>: taking it apart raises.
\<close>

datatype req_body = NoBody | JsonBody jsval "word_size option"

record request =
  http_method :: string
  req_body :: req_body

text \<open>
  The test of line 90, \<^verbatim>\<open>!text || typeof text !== 'string' || !wordSize\<close>: it lets
  through a non-empty string together with a number other than zero.
\<close>

fun validated :: "jsval \<Rightarrow> word_size option \<Rightarrow> (string \<times> word_size) option" where
  "validated (Str s) (Some n) = (if s = [] \<or> n = 0 then None else Some (s, n))"
| "validated txt wordSize = None"

text \<open>The \<open>try\<close> block of the handler, lines 88 to 125.\<close>

definition handler_try ::
    "network \<Rightarrow> nat list \<Rightarrow> req_body \<Rightarrow> world \<Rightarrow> ((exn + http_response) \<times> world) option" where
  "handler_try net order b w =
     (case b of
        NoBody \<Rightarrow> Some (Inl TypeError, w)
      | JsonBody txt wordSize \<Rightarrow>
          (case validated txt wordSize of
             None \<Rightarrow>
               Some (Inr \<lparr>status = 400, headers = [], body = ErrorBody ''Invalid exam input''\<rparr>, w)
           | Some (s, n) \<Rightarrow>
               (let words = extract_words s n;
                    limitedWords = take 10 words
                in case allSettled net order limitedWords w of
                     None \<Rightarrow> None
                   | Some (meaningResults, w') \<Rightarrow>
                       Some (Inr \<lparr>status = 200, headers = [],
                                  body = MeaningsBody (fulfilled_values meaningResults)
                                           (length words) (length limitedWords)\<rparr>, w'))))"

definition handler ::
    "network \<Rightarrow> nat list \<Rightarrow> request \<Rightarrow> world \<Rightarrow> (http_response \<times> world) option" where
  "handler net order req w =
     (if http_method req = ''POST'' then
        (case handler_try net order (req_body req) w of
           None \<Rightarrow> None
         | Some (Inl e, w') \<Rightarrow>
             Some (\<lparr>status = 500, headers = [],
                    body = FailureBody ''Failed to process exam vocabulary.'' e\<rparr>, w')
         | Some (Inr resp, w') \<Rightarrow> Some (resp, w'))
      else
        Some (\<lparr>status = 405, headers = [(''Allow'', [''POST''])],
               body = EndBody (''Method '' @ http_method req @ '' Not Allowed'')\<rparr>, w))"

definition world0 :: world where
  "world0 = \<lparr>definitionCache = Map.empty, fetched = (\<lambda>u. 0)\<rparr>"

section \<open>Example networks and payloads\<close>

text \<open>
  The network that is down, a payload of the dictionary with one sense, the network
  that answers every request with it, a payload whose first definition is empty, the
  network that answers with the empty object, and one that answers for one word only.
\<close>

definition net_down :: network where
  "net_down u = Rejects TypeError"

definition example_payload :: jsval where
  "example_payload =
     Arr [Obj [(''word'', Str ''data''),
               (''meanings'',
                Arr [Obj [(''partOfSpeech'', Str ''noun''),
                          (''definitions'',
                           Arr [Obj [(''definition'', Str ''facts and statistics''),
                                     (''example'', Str ''there is little data'')]])]])]]"

definition net_up :: network where
  "net_up u = Resolves (Response True (Inr example_payload))"

definition not_found_payload :: jsval where
  "not_found_payload =
     Arr [Obj [(''meanings'',
                Arr [Obj [(''partOfSpeech'', Str ''noun''),
                          (''definitions'', Arr [Obj [(''definition'', Str [])]])]])]]"

definition net_not_found :: network where
  "net_not_found u = Resolves (Response True (Inr not_found_payload))"

definition net_empty_object :: network where
  "net_empty_object u = Resolves (Response True (Inr (Obj [])))"

definition net_mixed :: network where
  "net_mixed u = (if u = dictionary_url ''data'' then Resolves (Response True (Inr example_payload))
                  else Rejects AbortError)"

definition post :: "jsval \<Rightarrow> word_size option \<Rightarrow> request" where
  "post txt wordSize = \<lparr>http_method = ''POST'', req_body = JsonBody txt wordSize\<rparr>"

section \<open>Abbreviations for the statements\<close>

text \<open>
  The entry a lookup returns in a world, the world a lookup leaves behind (given the
  result of its cache test), the slot a settled lookup fills, and the world after all
  lookups of a batch have settled in a given order. The lemmas below show that the
  functions of the handler compute exactly these.
\<close>

definition after_lookup :: "network \<Rightarrow> string \<Rightarrow> ExamWordDefinition option \<Rightarrow> world \<Rightarrow> world" where
  "after_lookup net wd hit w =
     (case hit of Some d \<Rightarrow> w
      | None \<Rightarrow>
         w\<lparr>fetched := (fetched w)(dictionary_url wd := Suc (fetched w (dictionary_url wd))),
           definitionCache :=
            (case source_result net wd of
               Some d \<Rightarrow> (definitionCache w)(wd \<mapsto> d)
             | None \<Rightarrow> definitionCache w)\<rparr>)"

definition lookup_entry :: "network \<Rightarrow> world \<Rightarrow> string \<Rightarrow> ExamWordDefinition" where
  "lookup_entry net w wd =
     (case definitionCache w wd of Some d \<Rightarrow> d | None \<Rightarrow> miss_result net wd)"

definition slot_of :: "network \<Rightarrow> string list \<Rightarrow> ExamWordDefinition option list \<Rightarrow> nat \<Rightarrow> slot" where
  "slot_of net ws hits i =
     Some (Inr (meaning_of (ws ! i) (case hits ! i of Some d \<Rightarrow> d | None \<Rightarrow> miss_result net (ws ! i))))"

definition after_batch :: "network \<Rightarrow> nat list \<Rightarrow> string list \<Rightarrow> world \<Rightarrow> world" where
  "after_batch net order ws w =
     foldl (\<lambda>w' i. after_lookup net (ws ! i) (map (definitionCache w) ws ! i) w') w order"

section \<open>The matcher finds the runs of word characters\<close>

lemma rev_upt_Suc: "n \<le> m \<Longrightarrow> rev [n ..< Suc m] = m # rev [n ..< m]"
  by simp

lemma match_here_atoms:
  assumes "1 \<le> n"
  shows "match_here [Boundary, WordAtLeast n, Boundary] prev s =
           (if \<not> word_before prev \<and> n \<le> length (takeWhile is_word_char s)
            then Some (takeWhile is_word_char s) else None)"
proof (cases "n \<le> length (takeWhile is_word_char s)")
  case False
  then show ?thesis by simp
next
  case True
  define m where "m = length (takeWhile is_word_char s)"
  have m: "n \<le> m" "1 \<le> m" using True assms by (auto simp: m_def)
  have tk: "take m s = takeWhile is_word_char s"
    unfolding m_def by (metis takeWhile_eq_take)
  have dr: "drop m s = dropWhile is_word_char s"
    unfolding m_def by (metis dropWhile_eq_drop)
  have lastw: "is_word_char (s ! (m - 1))"
  proof -
    have "m - 1 < length (takeWhile is_word_char s)" using m by (simp add: m_def)
    then have "takeWhile is_word_char s ! (m - 1) \<in> set (takeWhile is_word_char s)" 
      by (rule nth_mem)
    moreover have "takeWhile is_word_char s ! (m - 1) = s ! (m - 1)"
      using m by (simp add: m_def takeWhile_nth)
    ultimately show ?thesis by (metis set_takeWhileD)
  qed
  have after: "\<not> word_after (drop m s)"
    unfolding dr word_after_def
    by (auto simp: dropWhile_eq_Cons_conv split: list.splits)
  have bnd: "at_boundary (char_before prev s m) (drop m s)"
    using m lastw after by (simp add: at_boundary_def char_before_def word_before_def)
  have wa: "word_after s"
  proof -
    have "takeWhile is_word_char s \<noteq> []" using m by (auto simp: m_def)
    then show ?thesis by (cases s) (auto simp: word_after_def split: if_splits)
  qed
  have "match_here [WordAtLeast n, Boundary] prev s = Some (takeWhile is_word_char s)"
    using m bnd tk by (simp add: m_def[symmetric] rev_upt_Suc del: upt_Suc)
  with True wa show ?thesis by (simp add: at_boundary_def)
qed

lemma match_here_word:
  assumes "1 \<le> n"
  shows "match_here (wordPattern n) prev s =
           (if \<not> word_before prev \<and> n \<le> length (takeWhile is_word_char s)
            then Some (takeWhile is_word_char s) else None)"
  unfolding wordPattern_def using assms by (rule match_here_atoms)

lemma match_all_runs:
  assumes n: "1 \<le> n"
  shows "match_all (wordPattern n) prev s =
           filter (\<lambda>w. n \<le> length w)
             (word_runs (if word_before prev then dropWhile is_word_char s else s))"
proof (induction "length s" arbitrary: s prev rule: less_induct)
  case less
  let ?re = "wordPattern n"
  show ?case
  proof (cases s)
    case Nil
    then show ?thesis using n by (simp add: match_here_word[OF n] del: match_here.simps)
  next
    case (Cons c s')
    let ?tw = "takeWhile is_word_char (c # s')"
    show ?thesis
    proof (cases "\<not> word_before prev \<and> n \<le> length ?tw")
      case True
      then have c: "is_word_char c" using n by (auto split: if_splits)
      have tw: "?tw = c # takeWhile is_word_char s'" using c by simp
      have dr: "drop (length ?tw) (c # s') = dropWhile is_word_char s'"
        using c by (simp add: dropWhile_eq_drop)
      have lastw: "word_before (Some (last ?tw))"
      proof -
        have "last ?tw \<in> set ?tw" using tw by (metis last_in_set list.distinct(1))
        then show ?thesis by (auto simp: word_before_def dest: set_takeWhileD)
      qed
      have len: "length (dropWhile is_word_char s') < length s"
        using Cons by (simp add: less_Suc_eq_le length_dropWhile_le)
      have step: "match_all ?re prev (c # s') =
                    ?tw # match_all ?re (Some (last ?tw)) (dropWhile is_word_char s')"
        using True tw dr by (simp add: match_here_word[OF n] del: takeWhile.simps match_here.simps)
      have "match_all ?re (Some (last ?tw)) (dropWhile is_word_char s') =
              filter (\<lambda>w. n \<le> length w) (word_runs (dropWhile is_word_char s'))"
        using less[OF len, of "Some (last ?tw)"] lastw by simp
      with step True Cons c show ?thesis by simp
    next
      case False
      have len: "length s' < length s" using Cons by simp
      have step: "match_all ?re prev (c # s') = match_all ?re (Some c) s'"
        using False n by (auto simp add: match_here_word[OF n] simp del: takeWhile.simps match_here.simps)
      have ih: "match_all ?re (Some c) s' =
              filter (\<lambda>w. n \<le> length w)
                (word_runs (if is_word_char c then dropWhile is_word_char s' else s'))"
        using less[OF len, of "Some c"] by (simp add: word_before_def)
      show ?thesis
      proof (cases "word_before prev")
        case True
        then show ?thesis using step ih Cons by simp
      next
        case nb: False
        with False have short: "\<not> n \<le> length ?tw" by simp
        show ?thesis using step ih Cons nb short by (auto split: if_splits)
      qed
    qed
  qed
qed

lemma matches_word_runs:
  "1 \<le> n \<Longrightarrow> match_all (wordPattern n) None s = filter (\<lambda>w. n \<le> length w) (word_runs s)"
  by (simp add: match_all_runs word_before_def)

section \<open>Sets keep first occurrences\<close>

lemma set_foldl_set_add: "set (foldl set_add acc xs) = set acc \<union> set xs"
  by (induction xs arbitrary: acc) (auto simp: set_add_def)

lemma distinct_foldl_set_add: "distinct acc \<Longrightarrow> distinct (foldl set_add acc xs)"
  by (induction xs arbitrary: acc) (auto simp: set_add_def)

lemma set_new_Set: "set (new_Set xs) = set xs"
  by (simp add: new_Set_def set_foldl_set_add)

lemma distinct_new_Set: "distinct (new_Set xs)"
  by (simp add: new_Set_def distinct_foldl_set_add)

lemma new_Set_snoc: "new_Set (xs @ [x]) = (if x \<in> set xs then new_Set xs else new_Set xs @ [x])"
  using set_new_Set[of xs] by (simp add: new_Set_def set_add_def)

lemma first_index_append:
  "first_index (xs @ ys) y = (if y \<in> set xs then first_index xs y else length xs + first_index ys y)"
  by (auto simp: first_index_def takeWhile_append)

lemma first_index_less: "y \<in> set xs \<Longrightarrow> first_index xs y < length xs"
  unfolding first_index_def by (induction xs) auto

lemma new_Set_first_occurrence_order:
  "i < j \<Longrightarrow> j < length (new_Set xs) \<Longrightarrow>
     first_index xs (new_Set xs ! i) < first_index xs (new_Set xs ! j)"
proof (induction xs arbitrary: i j rule: rev_induct)
  case Nil
  then show ?case by (simp add: new_Set_def)
next
  case (snoc x xs)
  show ?case
  proof (cases "x \<in> set xs")
    case True
    then have eq: "new_Set (xs @ [x]) = new_Set xs" by (simp add: new_Set_snoc)
    have "new_Set xs ! i \<in> set xs" "new_Set xs ! j \<in> set xs"
      using snoc.prems eq set_new_Set[of xs] nth_mem[of _ "new_Set xs"] by auto
    then show ?thesis using snoc eq by (simp add: first_index_append)
  next
    case False
    then have eq: "new_Set (xs @ [x]) = new_Set xs @ [x]" by (simp add: new_Set_snoc)
    have i: "i < length (new_Set xs)" using snoc.prems eq by simp
    then have mi: "new_Set xs ! i \<in> set xs"
      using set_new_Set[of xs] nth_mem[of i "new_Set xs"] by auto
    show ?thesis
    proof (cases "j < length (new_Set xs)")
      case True
      then have mj: "new_Set xs ! j \<in> set xs"
        using set_new_Set[of xs] nth_mem[of j "new_Set xs"] by auto
      show ?thesis using snoc.IH[OF snoc.prems(1) True] True i mi mj eq
        by (simp add: first_index_append nth_append)
    next
      case nj: False
      then have j: "j = length (new_Set xs)" using snoc.prems eq by simp
      have fx: "first_index (xs @ [x]) x = length xs"
        using False by (simp add: first_index_append) (simp add: first_index_def)
      have fi: "first_index (xs @ [x]) (new_Set xs ! i) = first_index xs (new_Set xs ! i)"
        using mi by (simp add: first_index_append)
      show ?thesis using i j eq first_index_less[OF mi] fx fi
        by (simp add: nth_append)
    qed
  qed
qed

lemma to_lower_char_idem: "to_lower_char (to_lower_char c) = to_lower_char c"
  by (auto simp: to_lower_char_def Let_def)

lemma toLowerCase_idem: "toLowerCase (toLowerCase s) = toLowerCase s"
  by (simp add: toLowerCase_def to_lower_char_idem)

lemma is_word_to_lower: "is_word_char c \<Longrightarrow> is_word_char (to_lower_char c)"
  by (auto simp: is_word_char_def to_lower_char_def Let_def)

lemma word_runs_word_chars: "r \<in> set (word_runs s) \<Longrightarrow> c \<in> set r \<Longrightarrow> is_word_char c"
  by (induction s rule: word_runs.induct) (auto split: if_splits dest: set_takeWhileD)

lemma word_runs_nonempty: "r \<in> set (word_runs s) \<Longrightarrow> r \<noteq> []"
  by (induction s rule: word_runs.induct) (auto split: if_splits)

lemma extract_with_tokens:
  assumes "1 \<le> n"
  shows "extract_with (wordPattern n) (int n) txt = new_Set (tokens n txt)"
  using assms
  by (simp add: extract_with_def tokens_def matches_word_runs filter_map o_def toLowerCase_def)

lemma extract_words_pattern:
  assumes "sint w = int n"
  shows "extract_words txt w = extract_with (wordPattern n) (int n) txt"
  using assms by (simp add: extract_words_def wordRegExp_def)

section \<open>The extractor meets its specification\<close>

lemma tokens_lower: "t \<in> set (tokens n txt) \<Longrightarrow> toLowerCase t = t"
  by (auto simp: tokens_def toLowerCase_idem)

lemma tokens_length: "t \<in> set (tokens n txt) \<Longrightarrow> n \<le> length t"
  by (auto simp: tokens_def toLowerCase_def)

lemma tokens_word_chars: "t \<in> set (tokens n txt) \<Longrightarrow> c \<in> set t \<Longrightarrow> is_word_char c"
proof -
  assume t: "t \<in> set (tokens n txt)" and c: "c \<in> set t"
  from t obtain r where r: "r \<in> set (word_runs txt)" "t = map to_lower_char r"
    by (auto simp: tokens_def toLowerCase_def)
  with c obtain x where x: "x \<in> set r" "c = to_lower_char x" by auto
  have "is_word_char x" using r(1) x(1) by (rule word_runs_word_chars)
  then show ?thesis unfolding x(2) by (rule is_word_to_lower)
qed

lemma map_toLowerCase_fixed: "(\<And>t. t \<in> set ts \<Longrightarrow> toLowerCase t = t) \<Longrightarrow> map toLowerCase ts = ts"
  by (induction ts) auto

text \<open>
  C1: for every text and every minimum \<open>n\<close> of at least one, the extractor (for a word
  size \<open>n\<close> it is \<open>extract_with\<close> at the pattern \<open>\b\w{n,}\b\<close> and the minimum
  \<open>n\<close>) gives the distinct lowercase tokens of at least the minimum length, the tokens
  being the maximal runs of word characters (letters, digits, underscore) of the text,
  lowercased. No two of them are equal up to case, and they stand in the order in which
  each first occurs in the text.
\<close>

theorem extract_words_first_occurrences:
  assumes "1 \<le> n"
  shows "(\<forall>w. sint w = int n \<longrightarrow> extract_words txt w = extract_with (wordPattern n) (int n) txt)
       \<and> set (extract_with (wordPattern n) (int n) txt) = set (tokens n txt)
       \<and> distinct (extract_with (wordPattern n) (int n) txt)
       \<and> distinct (map toLowerCase (extract_with (wordPattern n) (int n) txt))
       \<and> (\<forall>t \<in> set (extract_with (wordPattern n) (int n) txt).
             n \<le> length t \<and> toLowerCase t = t \<and> (\<forall>c \<in> set t. is_word_char c))
       \<and> (\<forall>i j. i < j \<and> j < length (extract_with (wordPattern n) (int n) txt) \<longrightarrow>
             first_index (tokens n txt) (extract_with (wordPattern n) (int n) txt ! i)
               < first_index (tokens n txt) (extract_with (wordPattern n) (int n) txt ! j))"
proof -
  have link: "\<forall>w. sint w = int n \<longrightarrow> extract_words txt w = extract_with (wordPattern n) (int n) txt"
    using extract_words_pattern by blast
  have eq: "extract_with (wordPattern n) (int n) txt = new_Set (tokens n txt)"
    using assms by (rule extract_with_tokens)
  have s: "set (new_Set (tokens n txt)) = set (tokens n txt)" by (rule set_new_Set)
  have d: "distinct (new_Set (tokens n txt))" by (rule distinct_new_Set)
  have fixed: "map toLowerCase (new_Set (tokens n txt)) = new_Set (tokens n txt)"
    by (rule map_toLowerCase_fixed) (simp add: s tokens_lower)
  have each: "\<forall>t \<in> set (new_Set (tokens n txt)).
                n \<le> length t \<and> toLowerCase t = t \<and> (\<forall>c \<in> set t. is_word_char c)"
    using tokens_lower tokens_length tokens_word_chars unfolding s by blast
  have ord: "\<forall>i j. i < j \<and> j < length (new_Set (tokens n txt)) \<longrightarrow>
             first_index (tokens n txt) (new_Set (tokens n txt) ! i)
               < first_index (tokens n txt) (new_Set (tokens n txt) ! j)"
    using new_Set_first_occurrence_order by blast
  show ?thesis using link unfolding eq using s d fixed each ord by (simp only: simp_thms)
qed

lemma example_theory_words:
  "extract_words ''Theory of theory and Data, data'' 4 = [''theory'', ''data'']"
  by code_simp

lemma example_theory_tokens:
  "tokens 4 ''Theory of theory and Data, data'' = [''theory'', ''theory'', ''data'', ''data'']"
  by code_simp

theorem extract_words_first_occurrences_witness:
  "(1::nat) \<le> 4
   \<and> sint (4 :: word_size) = int 4
   \<and> extract_words ''Theory of theory and Data, data'' 4
        = extract_with (wordPattern 4) (int 4) ''Theory of theory and Data, data''
   \<and> set (extract_with (wordPattern 4) (int 4) ''Theory of theory and Data, data'')
        = set (tokens 4 ''Theory of theory and Data, data'')
   \<and> distinct (extract_with (wordPattern 4) (int 4) ''Theory of theory and Data, data'')
   \<and> distinct (map toLowerCase
        (extract_with (wordPattern 4) (int 4) ''Theory of theory and Data, data''))
   \<and> extract_words ''Theory of theory and Data, data'' 4 = [''theory'', ''data'']
   \<and> tokens 4 ''Theory of theory and Data, data'' = [''theory'', ''theory'', ''data'', ''data'']"
proof -
  have h: "(1::nat) \<le> 4" by simp
  have w: "sint (4 :: word_size) = int 4" by simp
  show ?thesis
    using h w extract_words_first_occurrences[OF h, of "''Theory of theory and Data, data''"]
      example_theory_words example_theory_tokens
    by blast
qed

lemma distinct_extract_words: "distinct (extract_words s n)"
  by (simp add: extract_words_def extract_with_def distinct_new_Set)

lemma extract_words_set:
  "set (extract_words s n) =
     set (filter (\<lambda>w. sint n \<le> int (length w)) (map toLowerCase (match_all (wordRegExp n) None s)))"
  by (simp only: extract_words_def extract_with_def set_new_Set)

lemma extract_words_lower: "map toLowerCase (extract_words s n) = extract_words s n"
proof (rule map_toLowerCase_fixed)
  fix t assume "t \<in> set (extract_words s n)"
  then obtain r where "t = toLowerCase r" unfolding extract_words_set by auto
  then show "toLowerCase t = t" by (simp add: toLowerCase_idem)
qed

lemma extract_words_card:
  "length (extract_words s n) =
     card (set (filter (\<lambda>w. sint n \<le> int (length w))
                 (map toLowerCase (match_all (wordRegExp n) None s))))"
  using distinct_card[OF distinct_extract_words[of s n]] by (simp only: extract_words_set)

lemma extract_words_tokens:
  assumes "1 \<le> sint n"
  shows "extract_words s n = new_Set (tokens (nat (sint n)) s)"
proof -
  have "sint n = int (nat (sint n))" and "1 \<le> nat (sint n)" using assms by simp_all
  then show ?thesis
    using extract_words_pattern[of n "nat (sint n)" s] extract_with_tokens[of "nat (sint n)" s]
    by simp
qed

section \<open>Evaluation on the example of the specification\<close>

text \<open>
  C9: with \<open>wordSize = 7\<close> the text "The hypothesis requires rigorous analysis" gives
  exactly the candidates hypothesis, requires, rigorous, analysis in this order; "The"
  is not among them.
\<close>

theorem extract_words_example:
  "extract_words ''The hypothesis requires rigorous analysis'' 7
     = [''hypothesis'', ''requires'', ''rigorous'', ''analysis'']
   \<and> ''the'' \<notin> set (extract_words ''The hypothesis requires rigorous analysis'' 7)
   \<and> ''The'' \<notin> set (extract_words ''The hypothesis requires rigorous analysis'' 7)"
  by code_simp

section \<open>One lookup\<close>

lemma try_sources_academic:
  "try_sources net academicSources wd w =
     (Inr (miss_result net wd),
      w\<lparr>fetched := (fetched w)(dictionary_url wd := Suc (fetched w (dictionary_url wd))),
        definitionCache :=
          (case source_result net wd of
             Some d \<Rightarrow> (definitionCache w)(wd \<mapsto> d)
           | None \<Rightarrow> definitionCache w)\<rparr>)"
  by (simp add: academicSources_def fetchWithTimeout_def miss_result_def source_result_def
        dictionary_source_def Let_def
      split: sum.splits option.splits)

lemma dictionary_url_inj: "dictionary_url a = dictionary_url b \<longleftrightarrow> a = b"
  by (simp add: dictionary_url_def)

lemma resume_eq:
  "resume net wd hit w =
     (Inr (case hit of Some d \<Rightarrow> d | None \<Rightarrow> miss_result net wd), after_lookup net wd hit w)"
  by (simp add: resume_def try_sources_academic after_lookup_def split: option.splits)

lemma fetchExam_eq:
  "fetchExamDefinitionWithFallback net wd w =
     (Inr (lookup_entry net w wd), after_lookup net wd (definitionCache w wd) w)"
  by (simp add: fetchExamDefinitionWithFallback_def resume_eq lookup_entry_def)

lemma after_lookup_cache:
  "definitionCache (after_lookup net wd hit w) key =
     (if wd = key \<and> hit = None \<and> source_result net key \<noteq> None
      then source_result net key else definitionCache w key)"
  by (cases hit; cases "source_result net wd") (auto simp add: after_lookup_def)

lemma after_lookup_fetched:
  "fetched (after_lookup net wd hit w) u =
     fetched w u + (if hit = None \<and> dictionary_url wd = u then 1 else 0)"
  by (cases hit) (simp_all add: after_lookup_def)

section \<open>A batch of lookups, settled in any order\<close>

lemma settle_eq:
  "settle net ws hits (res, w) i =
     (res[i := slot_of net ws hits i], after_lookup net (ws ! i) (hits ! i) w)"
  by (simp add: settle_def resume_eq slot_of_def)

lemma foldl_settle_snd:
  "snd (foldl (settle net ws hits) (res, w) order) =
     foldl (\<lambda>w i. after_lookup net (ws ! i) (hits ! i) w) w order"
  by (induction order arbitrary: res w) (simp_all add: settle_eq)

lemma foldl_settle_length:
  "length (fst (foldl (settle net ws hits) (res, w) order)) = length res"
  by (induction order arbitrary: res w) (simp_all add: settle_eq)

lemma foldl_settle_nth:
  "j < length res \<Longrightarrow>
     fst (foldl (settle net ws hits) (res, w) order) ! j =
       (if j \<in> set order then slot_of net ws hits j else res ! j)"
proof (induction order arbitrary: res w)
  case Nil
  then show ?case by simp
next
  case (Cons a order)
  have "fst (foldl (settle net ws hits) (res[a := slot_of net ws hits a],
              after_lookup net (ws ! a) (hits ! a) w) order) ! j =
          (if j \<in> set order then slot_of net ws hits j else res[a := slot_of net ws hits a] ! j)"
    using Cons.prems by (intro Cons.IH) simp
  then show ?case using Cons.prems by (auto simp: settle_eq nth_list_update)
qed

lemma foldl_after_cache:
  "definitionCache (foldl (\<lambda>w i. after_lookup net (ws ! i) (hits ! i) w) w order) key =
     (if \<exists>i \<in> set order. ws ! i = key \<and> hits ! i = None \<and> source_result net key \<noteq> None
      then source_result net key else definitionCache w key)"
proof -
  define P where "P i \<longleftrightarrow> ws ! i = key \<and> hits ! i = None \<and> source_result net key \<noteq> None" for i
  have step: "definitionCache (after_lookup net (ws ! a) (hits ! a) w) key =
        (if P a then source_result net key else definitionCache w key)" for a w
    unfolding P_def by (rule after_lookup_cache)
  have "definitionCache (foldl (\<lambda>w i. after_lookup net (ws ! i) (hits ! i) w) w order) key =
     (if \<exists>i \<in> set order. P i then source_result net key else definitionCache w key)"
  proof (induction order arbitrary: w)
    case Nil
    then show ?case by simp
  next
    case (Cons a order)
    show ?case by (simp add: Cons.IH step)
  qed
  then show ?thesis unfolding P_def .
qed

lemma foldl_after_fetched:
  "fetched (foldl (\<lambda>w i. after_lookup net (ws ! i) (hits ! i) w) w order) u =
     fetched w u + length (filter (\<lambda>i. hits ! i = None \<and> dictionary_url (ws ! i) = u) order)"
proof (induction order arbitrary: w)
  case Nil
  then show ?case by simp
next
  case (Cons a order)
  show ?case by (simp add: Cons.IH after_lookup_fetched)
qed

lemma filter_single:
  "distinct xs \<Longrightarrow> a \<in> set xs \<Longrightarrow> filter (\<lambda>i. i = a) xs = [a]"
  by (induction xs) (auto simp: filter_empty_conv)

lemma slot_of_hits:
  "j < length ws \<Longrightarrow>
     slot_of net ws (map (definitionCache w) ws) j =
       Some (Inr (meaning_of (ws ! j) (lookup_entry net w (ws ! j))))"
  by (simp add: slot_of_def lookup_entry_def)

lemma fulfilled_values_all:
  "fulfilled_values (map (\<lambda>x. Some (Inr (f x))) xs) = map f xs"
  by (induction xs) (simp_all add: fulfilled_values_def List.map_filter_simps)

lemma allSettled_perm:
  assumes "distinct order" and "set order = {..<length ws}"
  shows "allSettled net order ws w =
           Some (map (\<lambda>wd. Some (Inr (meaning_of wd (lookup_entry net w wd)))) ws,
                 after_batch net order ws w)"
proof -
  let ?hits = "map (definitionCache w) ws"
  let ?run = "foldl (settle net ws ?hits) (replicate (length ws) None, w) order"
  let ?res = "map (\<lambda>wd. Some (Inr (meaning_of wd (lookup_entry net w wd)))) ws"
  have len: "length (fst ?run) = length ws"
    by (simp add: foldl_settle_length)
  have nth: "fst ?run ! j = ?res ! j" if j: "j < length ws" for j
  proof -
    have "j \<in> set order" using j assms(2) by simp
    moreover have "j < length (replicate (length ws) (None :: slot))" using j by simp
    ultimately have "fst ?run ! j = slot_of net ws ?hits j"
      by (simp only: foldl_settle_nth if_True)
    then show ?thesis using j by (simp only: slot_of_hits nth_map)
  qed
  have fst: "fst ?run = ?res"
    by (rule nth_equalityI) (simp_all only: len nth length_map)
  have snd: "snd ?run = after_batch net order ws w"
    by (simp only: foldl_settle_snd after_batch_def)
  have run: "?run = (?res, after_batch net order ws w)"
    using fst snd by (simp only: prod_eq_iff fst_conv snd_conv simp_thms)
  have perm: "distinct order \<and> set order = set [0 ..< length ws]"
    using assms by (simp add: atLeast0LessThan)
  show ?thesis
    unfolding allSettled_def by (simp only: perm if_True run simp_thms)
qed

lemma after_batch_cache:
  assumes "set order = {..<length ws}"
  shows "definitionCache (after_batch net order ws w) key =
           (if key \<in> set ws \<and> definitionCache w key = None \<and> source_result net key \<noteq> None
            then source_result net key else definitionCache w key)"
proof -
  have "(\<exists>i \<in> set order. ws ! i = key \<and> map (definitionCache w) ws ! i = None
            \<and> source_result net key \<noteq> None)
        \<longleftrightarrow> (key \<in> set ws \<and> definitionCache w key = None \<and> source_result net key \<noteq> None)"
    (is "?L \<longleftrightarrow> ?R")
  proof
    assume ?L
    then obtain i where "i < length ws" "ws ! i = key" "map (definitionCache w) ws ! i = None"
      "source_result net key \<noteq> None" using assms by auto
    then show ?R by (auto simp del: not_None_eq)
  next
    assume r: ?R
    then obtain i where "i < length ws" "ws ! i = key" by (auto simp: in_set_conv_nth)
    then show ?L using r assms by (intro bexI[of _ i]) (auto simp del: not_None_eq)
  qed
  then show ?thesis
    unfolding after_batch_def foldl_after_cache by (simp only:)
qed

lemma after_batch_fetched:
  assumes "distinct order" and "set order = {..<length ws}" and "distinct ws"
  shows "fetched (after_batch net order ws w) (dictionary_url key) =
           fetched w (dictionary_url key)
             + (if key \<in> set ws \<and> definitionCache w key = None then 1 else 0)"
proof -
  let ?P = "\<lambda>i. map (definitionCache w) ws ! i = None \<and> dictionary_url (ws ! i) = dictionary_url key"
  have "length (filter ?P order) = (if key \<in> set ws \<and> definitionCache w key = None then 1 else 0)"
  proof (cases "key \<in> set ws")
    case False
    then have "filter ?P order = []"
      using assms(2) by (auto simp: filter_empty_conv dictionary_url_inj)
    with False show ?thesis by simp
  next
    case True
    then obtain i0 where i0: "i0 < length ws" "ws ! i0 = key"
      by (auto simp: in_set_conv_nth)
    have "filter ?P order = filter (\<lambda>i. definitionCache w key = None \<and> i = i0) order"
    proof (rule filter_cong[OF refl])
      fix i assume "i \<in> set order"
      then have "i < length ws" using assms(2) by simp
      then show "?P i = (definitionCache w key = None \<and> i = i0)"
        using i0 assms(3) by (auto simp: dictionary_url_inj nth_eq_iff_index_eq)
    qed
    also have "\<dots> = (if definitionCache w key = None then [i0] else [])"
      using filter_single[OF assms(1), of i0] i0 assms(2) by simp
    finally show ?thesis using True by simp
  qed
  then show ?thesis
    unfolding after_batch_def foldl_after_fetched by simp
qed

lemma after_batch_fetched_other:
  assumes "\<forall>key \<in> set ws. u \<noteq> dictionary_url key" and "set order = {..<length ws}"
  shows "fetched (after_batch net order ws w) u = fetched w u"
proof -
  have "filter (\<lambda>i. map (definitionCache w) ws ! i = None \<and> dictionary_url (ws ! i) = u) order = []"
    using assms by (auto simp: filter_empty_conv)
  then show ?thesis unfolding after_batch_def foldl_after_fetched by simp
qed

section \<open>The handler\<close>

lemma handler_valid:
  assumes "s \<noteq> []" and "n \<noteq> 0" and "distinct order"
    and "set order = {..<length (take 10 (extract_words s n))}"
  shows "handler net order (post (Str s) (Some n)) w =
           Some (\<lparr>status = 200, headers = [],
                  body = MeaningsBody
                    (map (\<lambda>wd. meaning_of wd (lookup_entry net w wd)) (take 10 (extract_words s n)))
                    (length (extract_words s n)) (length (take 10 (extract_words s n)))\<rparr>,
                 after_batch net order (take 10 (extract_words s n)) w)"
proof -
  have v: "validated (Str s) (Some n) = Some (s, n)" using assms(1,2) by simp
  have a: "allSettled net order (take 10 (extract_words s n)) w =
            Some (map (\<lambda>wd. Some (Inr (meaning_of wd (lookup_entry net w wd)))) (take 10 (extract_words s n)),
                  after_batch net order (take 10 (extract_words s n)) w)"
    using assms(3,4) by (rule allSettled_perm)
  show ?thesis
    unfolding handler_def handler_try_def post_def
    by (simp add: v a fulfilled_values_all Let_def del: validated.simps length_take)
qed

lemma handler_invalid:
  assumes "validated txt wordSize = None"
  shows "handler net order (post txt wordSize) w =
           Some (\<lparr>status = 400, headers = [], body = ErrorBody ''Invalid exam input''\<rparr>, w)"
  unfolding handler_def handler_try_def post_def by (simp add: assms)

lemma handler_null_body:
  "handler net order \<lparr>http_method = ''POST'', req_body = NoBody\<rparr> w =
     Some (\<lparr>status = 500, headers = [],
            body = FailureBody ''Failed to process exam vocabulary.'' TypeError\<rparr>, w)"
  unfolding handler_def handler_try_def by simp

lemma handler_not_post:
  "m \<noteq> ''POST'' \<Longrightarrow>
     handler net order \<lparr>http_method = m, req_body = b\<rparr> w =
       Some (\<lparr>status = 405, headers = [(''Allow'', [''POST''])],
              body = EndBody (''Method '' @ m @ '' Not Allowed'')\<rparr>, w)"
  unfolding handler_def by simp

lemma meaning_of_word: "word (meaning_of wd d) = wd"
  by (simp add: meaning_of_def)

lemma example_big_data: "extract_words ''Big data'' 3 = [''big'', ''data'']"
  by code_simp

lemma example_negative: "extract_words ''abc'' (- 1) = []"
  by code_simp

lemma example_negative_literal: "extract_words ''A{-1,}b c'' (- 1) = [''a{-1,}'']"
  by code_simp

text \<open>
  C2: a valid POST request (a non-empty text, a word size other than zero) is answered
  with status 200, whatever the network does and in whatever order the lookups settle.
  The list of meanings has one entry for each of the first ten candidates, so it is as
  long as \<open>processedWords\<close>, and its entries carry the candidates in the order of the
  extraction: the list does not depend on the order of completion.
\<close>

theorem handler_meanings_in_candidate_order:
  assumes "s \<noteq> []" and "n \<noteq> 0" and "distinct order"
    and "set order = {..<length (take 10 (extract_words s n))}"
  shows "\<exists>ms total processed w'.
           handler net order (post (Str s) (Some n)) w =
             Some (\<lparr>status = 200, headers = [], body = MeaningsBody ms total processed\<rparr>, w')
         \<and> length ms = processed
         \<and> map word ms = take 10 (extract_words s n)
         \<and> ms = map (\<lambda>wd. meaning_of wd (lookup_entry net w wd)) (take 10 (extract_words s n))"
proof -
  let ?ms = "map (\<lambda>wd. meaning_of wd (lookup_entry net w wd)) (take 10 (extract_words s n))"
  have "map word ?ms = take 10 (extract_words s n)"
    by (simp add: o_def meaning_of_word del: length_take)
  moreover have "length ?ms = length (take 10 (extract_words s n))" by simp
  ultimately show ?thesis
    using handler_valid[OF assms, of net w] by blast
qed

theorem handler_meanings_in_candidate_order_witness:
  "''Big data'' \<noteq> [] \<and> (3::word_size) \<noteq> 0 \<and> distinct [1, 0::nat]
   \<and> set [1, 0::nat] = {..<length (take 10 (extract_words ''Big data'' 3))}
   \<and> (\<exists>ms total processed w'.
           handler net_down [1, 0] (post (Str ''Big data'') (Some 3)) world0 =
             Some (\<lparr>status = 200, headers = [], body = MeaningsBody ms total processed\<rparr>, w')
         \<and> length ms = processed
         \<and> map word ms = take 10 (extract_words ''Big data'' 3)
         \<and> ms = map (\<lambda>wd. meaning_of wd (lookup_entry net_down world0 wd))
                  (take 10 (extract_words ''Big data'' 3)))"
proof -
  have h1: "''Big data'' \<noteq> []" by simp
  have h2: "(3::word_size) \<noteq> 0" by simp
  have h3: "distinct [1, 0::nat]" by simp
  have h4: "set [1, 0::nat] = {..<length (take 10 (extract_words ''Big data'' 3))}"
    unfolding example_big_data by auto
  show ?thesis
    using h1 h2 h3 h4 handler_meanings_in_candidate_order[OF h1 h2 h3 h4, of net_down world0]
    by (simp only: simp_thms)
qed

lemma example_twelve:
  "extract_words ''Data data a b c d e f g h i j k DATA'' 1 =
     [''data'', ''a'', ''b'', ''c'', ''d'', ''e'', ''f'', ''g'', ''h'', ''i'', ''j'', ''k'']"
  by code_simp

text \<open>
  C3: for a valid POST request \<open>totalWordsFound\<close> is the number of candidates before
  the truncation, and the candidates are distinct, also up to case: the list holds
  every lowercased match of the pattern that is long enough, each once, so the total is
  the number of different such words, however many there are (for a word size of at
  least one, the number of different tokens of the text). \<open>processedWords\<close> is the
  smaller of the total and ten, so at most the total, and it is the number of meanings.
\<close>

theorem handler_counts:
  assumes "s \<noteq> []" and "n \<noteq> 0" and "distinct order"
    and "set order = {..<length (take 10 (extract_words s n))}"
  shows "\<exists>ms total processed w'.
           handler net order (post (Str s) (Some n)) w =
             Some (\<lparr>status = 200, headers = [], body = MeaningsBody ms total processed\<rparr>, w')
         \<and> total = length (extract_words s n)
         \<and> distinct (extract_words s n)
         \<and> distinct (map toLowerCase (extract_words s n))
         \<and> set (extract_words s n) =
             set (filter (\<lambda>w. sint n \<le> int (length w))
                    (map toLowerCase (match_all (wordRegExp n) None s)))
         \<and> total = card (set (filter (\<lambda>w. sint n \<le> int (length w))
                                  (map toLowerCase (match_all (wordRegExp n) None s))))
         \<and> (1 \<le> sint n \<longrightarrow> total = card (set (tokens (nat (sint n)) s)))
         \<and> processed = min total 10
         \<and> processed \<le> total
         \<and> processed = length ms"
proof -
  let ?ws = "extract_words s n"
  let ?ms = "map (\<lambda>wd. meaning_of wd (lookup_entry net w wd)) (take 10 ?ws)"
  have d: "distinct ?ws" by (rule distinct_extract_words)
  have dl: "distinct (map toLowerCase ?ws)" using d by (simp only: extract_words_lower)
  have st: "set ?ws =
             set (filter (\<lambda>w. sint n \<le> int (length w))
                    (map toLowerCase (match_all (wordRegExp n) None s)))"
    by (rule extract_words_set)
  have c: "length ?ws = card (set (filter (\<lambda>w. sint n \<le> int (length w))
                                  (map toLowerCase (match_all (wordRegExp n) None s))))"
    by (rule extract_words_card)
  have t: "1 \<le> sint n \<longrightarrow> length ?ws = card (set (tokens (nat (sint n)) s))"
  proof
    assume "1 \<le> sint n"
    then have "?ws = new_Set (tokens (nat (sint n)) s)" by (rule extract_words_tokens)
    then have "set ?ws = set (tokens (nat (sint n)) s)" by (simp only: set_new_Set)
    then show "length ?ws = card (set (tokens (nat (sint n)) s))"
      using distinct_card[OF d] by simp
  qed
  have p: "length (take 10 ?ws) = min (length ?ws) 10" by simp
  have le: "min (length ?ws) 10 \<le> length ?ws" by simp
  have lm: "min (length ?ws) 10 = length ?ms" by simp
  have h: "handler net order (post (Str s) (Some n)) w =
             Some (\<lparr>status = 200, headers = [],
                    body = MeaningsBody ?ms (length ?ws) (min (length ?ws) 10)\<rparr>,
                   after_batch net order (take 10 ?ws) w)"
    using handler_valid[OF assms, of net w] by (simp only: p)
  show ?thesis
    using h d dl st c t le lm by blast
qed

theorem handler_counts_witness:
  "''Data data a b c d e f g h i j k DATA'' \<noteq> [] \<and> (1::word_size) \<noteq> 0
   \<and> distinct (rev [0 ..< 10])
   \<and> set (rev [0 ..< 10]) =
        {..<length (take 10 (extract_words ''Data data a b c d e f g h i j k DATA'' 1))}
   \<and> 1 \<le> sint (1::word_size)
   \<and> extract_words ''Data data a b c d e f g h i j k DATA'' 1 =
        [''data'', ''a'', ''b'', ''c'', ''d'', ''e'', ''f'', ''g'', ''h'', ''i'', ''j'', ''k'']
   \<and> card (set (tokens (nat (sint (1::word_size))) ''Data data a b c d e f g h i j k DATA'')) = 12
   \<and> (\<exists>ms w'.
         handler net_up (rev [0 ..< 10])
             (post (Str ''Data data a b c d e f g h i j k DATA'') (Some 1)) world0 =
           Some (\<lparr>status = 200, headers = [], body = MeaningsBody ms 12 10\<rparr>, w')
         \<and> length ms = 10)"
proof -
  let ?t = "''Data data a b c d e f g h i j k DATA''"
  have h1: "?t \<noteq> []" by simp
  have h2: "(1::word_size) \<noteq> 0" by simp
  have h3: "distinct (rev [0 ..< 10])" by simp
  have h4: "set (rev [0 ..< 10]) = {..<length (take 10 (extract_words ?t 1))}"
    unfolding example_twelve by (simp add: atLeast0LessThan)
  have h5: "1 \<le> sint (1::word_size)" by simp
  have len: "length (extract_words ?t 1) = 12"
    unfolding example_twelve by simp
  obtain ms total processed w' where
    r: "handler net_up (rev [0 ..< 10]) (post (Str ?t) (Some 1)) world0 =
             Some (\<lparr>status = 200, headers = [], body = MeaningsBody ms total processed\<rparr>, w')"
    and tot: "total = length (extract_words ?t 1)"
    and tok: "1 \<le> sint (1::word_size) \<longrightarrow> total = card (set (tokens (nat (sint (1::word_size))) ?t))"
    and pr: "processed = min total 10" "processed = length ms"
    using handler_counts[OF h1 h2 h3 h4, of net_up world0] by blast
  have t12: "total = 12" using tot len by simp
  then have p10: "processed = 10" using pr(1) by simp
  have c12: "card (set (tokens (nat (sint (1::word_size))) ?t)) = 12"
    using tok h5 t12 by simp
  have "\<exists>ms w'.
         handler net_up (rev [0 ..< 10]) (post (Str ?t) (Some 1)) world0 =
           Some (\<lparr>status = 200, headers = [], body = MeaningsBody ms 12 10\<rparr>, w')
         \<and> length ms = 10"
    using r t12 p10 pr(2) by auto
  then show ?thesis using h1 h2 h3 h4 h5 c12 example_twelve by (simp only: simp_thms)
qed

text \<open>
  C8, as stated, fails for a POST request whose body is \<open>null\<close>: such a request has
  neither a text nor a word size, taking the body apart raises before the test of the
  input is reached, and the answer is status 500, not 400.
\<close>

theorem null_body_answered_500:
  "handler net_up [] \<lparr>http_method = ''POST'', req_body = NoBody\<rparr> world0 =
     Some (\<lparr>status = 500, headers = [],
            body = FailureBody ''Failed to process exam vocabulary.'' TypeError\<rparr>, world0)"
  by (rule handler_null_body)

text \<open>
  C8, amended: a POST request whose body is a JSON object with a text that is missing
  or empty, or with no word size, is answered with status 400 and the error "Invalid
  exam input". The world is returned as it was: nothing is fetched and nothing is
  cached.
\<close>

theorem handler_invalid_input:
  assumes "txt = Undefined \<or> txt = Str [] \<or> wordSize = None"
  shows "handler net order (post txt wordSize) w =
           Some (\<lparr>status = 400, headers = [], body = ErrorBody ''Invalid exam input''\<rparr>, w)"
proof -
  have "validated txt wordSize = None"
    using assms by (cases "txt"; cases wordSize) auto
  then show ?thesis by (rule handler_invalid)
qed

theorem handler_invalid_input_witness:
  "(Str [] = Undefined \<or> Str [] = Str [] \<or> Some (7::word_size) = None)
   \<and> handler net_up [0] (post (Str []) (Some 7)) world0 =
        Some (\<lparr>status = 400, headers = [], body = ErrorBody ''Invalid exam input''\<rparr>, world0)
   \<and> (Str ''abc'' = Undefined \<or> Str ''abc'' = Str [] \<or> (None :: word_size option) = None)
   \<and> handler net_up [0] (post (Str ''abc'') None) world0 =
        Some (\<lparr>status = 400, headers = [], body = ErrorBody ''Invalid exam input''\<rparr>, world0)
   \<and> (Undefined = Undefined \<or> Undefined = Str [] \<or> Some (7::word_size) = None)
   \<and> handler net_up [0] (post Undefined (Some 7)) world0 =
        Some (\<lparr>status = 400, headers = [], body = ErrorBody ''Invalid exam input''\<rparr>, world0)"
proof -
  have h1: "Str [] = Undefined \<or> Str [] = Str [] \<or> Some (7::word_size) = None" by simp
  have h2: "Str ''abc'' = Undefined \<or> Str ''abc'' = Str [] \<or> (None :: word_size option) = None"
    by simp
  have h3: "Undefined = Undefined \<or> Undefined = Str [] \<or> Some (7::word_size) = None" by simp
  show ?thesis
    using h1 h2 h3 handler_invalid_input[OF h1, of net_up "[0]" world0]
      handler_invalid_input[OF h2, of net_up "[0]" world0]
      handler_invalid_input[OF h3, of net_up "[0]" world0]
    by (simp only: simp_thms)
qed

text \<open>
  C7, as stated, fails for a negative word size: the test of the handler is a test for
  truthiness, which a negative number passes. With the word size \<open>-1\<close> the request
  is processed and answered with status 200.
\<close>

theorem negative_wordSize_not_rejected:
  "handler net_down [] (post (Str ''abc'') (Some (- 1))) world0 =
     Some (\<lparr>status = 200, headers = [], body = MeaningsBody [] 0 0\<rparr>, world0)"
proof -
  have h: "set ([] :: nat list) = {..<length (take 10 (extract_words ''abc'' (- 1)))}"
    unfolding example_negative by simp
  have "handler net_down [] (post (Str ''abc'') (Some (- 1))) world0 =
          Some (\<lparr>status = 200, headers = [],
                 body = MeaningsBody
                   (map (\<lambda>wd. meaning_of wd (lookup_entry net_down world0 wd)) (take 10 (extract_words ''abc'' (- 1))))
                   (length (extract_words ''abc'' (- 1))) (length (take 10 (extract_words ''abc'' (- 1))))\<rparr>,
                after_batch net_down [] (take 10 (extract_words ''abc'' (- 1))) world0)"
    by (rule handler_valid[OF _ _ _ h]) simp_all
  then show ?thesis unfolding example_negative by (simp add: after_batch_def)
qed

text \<open>
  C7, amended: a POST request whose body is a JSON object with the word size zero is
  answered with status 400 and the error "Invalid exam input", whatever its text, and
  the world is returned as it was. A negative word size is not rejected: with a text
  that is a non-empty string the request is processed and answered with status 200.
\<close>

theorem handler_wordSize_zero_or_negative:
  "handler net order (post tx (Some 0)) w =
     Some (\<lparr>status = 400, headers = [], body = ErrorBody ''Invalid exam input''\<rparr>, w)
   \<and> (sint n < 0 \<and> s \<noteq> [] \<and> distinct order
        \<and> set order = {..<length (take 10 (extract_words s n))}
        \<longrightarrow> (\<exists>ms total processed w'.
               handler net order (post (Str s) (Some n)) w =
                 Some (\<lparr>status = 200, headers = [], body = MeaningsBody ms total processed\<rparr>, w')))"
proof -
  have "validated tx (Some 0) = None" by (cases tx) auto
  then have zero: "handler net order (post tx (Some 0)) w =
     Some (\<lparr>status = 400, headers = [], body = ErrorBody ''Invalid exam input''\<rparr>, w)"
    by (rule handler_invalid)
  have neg: "\<exists>ms total processed w'.
               handler net order (post (Str s) (Some n)) w =
                 Some (\<lparr>status = 200, headers = [], body = MeaningsBody ms total processed\<rparr>, w')"
    if "sint n < 0" "s \<noteq> []" "distinct order" "set order = {..<length (take 10 (extract_words s n))}"
  proof -
    have "n \<noteq> 0" using that(1) by auto
    from handler_valid[OF that(2) this that(3,4), of net w] show ?thesis by blast
  qed
  show ?thesis using zero neg by blast
qed

theorem handler_wordSize_zero_or_negative_witness:
  "handler net_up [0] (post (Str ''some text'') (Some 0)) world0 =
     Some (\<lparr>status = 400, headers = [], body = ErrorBody ''Invalid exam input''\<rparr>, world0)
   \<and> sint (- 1 :: word_size) < 0 \<and> ''A{-1,}b c'' \<noteq> [] \<and> distinct [0::nat]
   \<and> set [0::nat] = {..<length (take 10 (extract_words ''A{-1,}b c'' (- 1)))}
   \<and> (\<exists>ms total processed w'.
         handler net_up [0] (post (Str ''A{-1,}b c'') (Some (- 1))) world0 =
           Some (\<lparr>status = 200, headers = [], body = MeaningsBody ms total processed\<rparr>, w'))"
proof -
  have h1: "sint (- 1 :: word_size) < 0" by simp
  have h2: "''A{-1,}b c'' \<noteq> []" by simp
  have h3: "distinct [0::nat]" by simp
  have h4: "set [0::nat] = {..<length (take 10 (extract_words ''A{-1,}b c'' (- 1)))}"
    unfolding example_negative_literal by auto
  have a: "handler net_up [0] (post (Str ''some text'') (Some 0)) world0 =
     Some (\<lparr>status = 400, headers = [], body = ErrorBody ''Invalid exam input''\<rparr>, world0)"
    using handler_wordSize_zero_or_negative[where net = net_up and order = "[0]"
        and tx = "Str ''some text''" and w = world0] by blast
  have b: "\<exists>ms total processed w'.
         handler net_up [0] (post (Str ''A{-1,}b c'') (Some (- 1))) world0 =
           Some (\<lparr>status = 200, headers = [], body = MeaningsBody ms total processed\<rparr>, w')"
    using handler_wordSize_zero_or_negative[where net = net_up and order = "[0]"
        and w = world0 and n = "- 1" and s = "''A{-1,}b c''"] h1 h2 h3 h4
    by blast
  show ?thesis using a b h1 h2 h3 h4 by (simp only: simp_thms)
qed

section \<open>Lookups: failures, successes and the cache\<close>

lemma fetchWithTimeout_fst:
  "fst (fetchWithTimeout net src wd w) =
     (case fetchWithTimeout_try net src wd of Inl e \<Rightarrow> Inr None | Inr r \<Rightarrow> Inr r)"
  by (simp add: fetchWithTimeout_def)

lemma fetchWithTimeout_fulfilled: "\<exists>r. fst (fetchWithTimeout net src wd w) = Inr r"
  by (simp add: fetchWithTimeout_fst split: sum.splits)

lemma source_result_None:
  "source_result net wd = None \<longleftrightarrow> fst (fetchWithTimeout net dictionary_source wd w) = Inr None"
  by (auto simp: source_result_def fetchWithTimeout_fst split: sum.splits option.splits)

lemma source_result_Some:
  "source_result net wd = Some d' \<longleftrightarrow>
     (\<exists>d. fst (fetchWithTimeout net dictionary_source wd w) = Inr (Some d) \<and> d' = d\<lparr>icon := icon_for wd\<rparr>)"
  by (auto simp: source_result_def fetchWithTimeout_fst split: sum.splits option.splits)

lemma try_fails:
  assumes "net (dictionary_url wd) = Rejects e
         \<or> net (dictionary_url wd) = Resolves (Response False b)
         \<or> net (dictionary_url wd) = Resolves (Response True (Inl e))
         \<or> (net (dictionary_url wd) = Resolves (Response True (Inr data)) \<and> parse_data data = Inl e)"
  shows "source_result net wd = None"
  using assms
  by (auto simp: source_result_def fetchWithTimeout_try_def dictionary_source_def and_then_def)



lemma icon_values: "map_of examWordIcons key = Some i \<Longrightarrow> i \<noteq> question_icon"
proof -
  assume "map_of examWordIcons key = Some i"
  then have "(key, i) \<in> set examWordIcons" by (rule map_of_SomeD)
  then show ?thesis unfolding examWordIcons_def question_icon_def by auto
qed

lemma icon_for_not_question: "icon_for wd \<noteq> Str question_icon"
proof (cases "map_of examWordIcons (toLowerCase wd)")
  case None
  then show ?thesis
    by (simp add: icon_for_def examWordIcons_get_def academic_icon_def question_icon_def)
next
  case (Some i)
  then have "i \<noteq> question_icon" by (rule icon_values)
  with Some show ?thesis
    by (simp add: icon_for_def examWordIcons_get_def academic_icon_def question_icon_def)
qed

lemma source_result_not_sentinel: "source_result net wd = Some d \<Longrightarrow> d \<noteq> sentinel x"
proof
  assume sr: "source_result net wd = Some d" and eq: "d = sentinel x"
  from sr obtain d0 where "d = d0\<lparr>icon := icon_for wd\<rparr>"
    by (auto simp: source_result_def split: sum.splits option.splits)
  then have "icon d = icon_for wd" by simp
  moreover have "icon d = Str question_icon" using eq by (simp add: sentinel_def)
  ultimately show False using icon_for_not_question[of wd] by simp
qed

lemma fetchExam_fulfilled:
  "\<exists>d w'. fetchExamDefinitionWithFallback net wd w = (Inr d, w')"
  by (simp add: fetchExam_eq)

lemma fetchExam_failure:
  assumes "definitionCache w wd = None" and "source_result net wd = None"
  shows "fst (fetchExamDefinitionWithFallback net wd w) = Inr (sentinel wd)"
    and "definitionCache (snd (fetchExamDefinitionWithFallback net wd w)) = definitionCache w"
    and "fetched (snd (fetchExamDefinitionWithFallback net wd w)) (dictionary_url wd)
           = fetched w (dictionary_url wd) + 1"
  using assms
  by (simp_all add: fetchExam_eq lookup_entry_def miss_result_def after_lookup_def)

lemma fetchExam_hit:
  "definitionCache w wd = Some d \<Longrightarrow> fetchExamDefinitionWithFallback net wd w = (Inr d, w)"
  by (simp add: fetchExam_eq lookup_entry_def after_lookup_def)

lemma fetchExam_cache:
  "definitionCache (snd (fetchExamDefinitionWithFallback net wd w)) key =
     (if wd = key \<and> definitionCache w wd = None \<and> source_result net key \<noteq> None
      then source_result net key else definitionCache w key)"
  by (simp only: fetchExam_eq snd_conv after_lookup_cache)

lemma fetchExam_fetched:
  "fetched (snd (fetchExamDefinitionWithFallback net wd w)) u =
     fetched w u + (if definitionCache w wd = None \<and> dictionary_url wd = u then 1 else 0)"
  by (simp only: fetchExam_eq snd_conv after_lookup_fetched)

lemma fetchExam_success:
  assumes "definitionCache w wd = None" and "source_result net wd = Some d"
  shows "fst (fetchExamDefinitionWithFallback net wd w) = Inr d"
  using assms by (simp add: fetchExam_eq lookup_entry_def miss_result_def)

lemma handler_isolated:
  assumes "s \<noteq> []" and "n \<noteq> 0" and "distinct order"
    and "set order = {..<length (take 10 (extract_words s n))}"
  shows "\<exists>ms w'.
           handler net order (post (Str s) (Some n)) w =
             Some (\<lparr>status = 200, headers = [],
                    body = MeaningsBody ms (length (extract_words s n))
                             (length (take 10 (extract_words s n)))\<rparr>, w')
         \<and> map Inr ms =
             map (\<lambda>wd. map_sum id (meaning_of wd) (fst (fetchExamDefinitionWithFallback net wd w)))
               (take 10 (extract_words s n))"
proof -
  let ?ms = "map (\<lambda>wd. meaning_of wd (lookup_entry net w wd)) (take 10 (extract_words s n))"
  have "map Inr ?ms =
          map (\<lambda>wd. map_sum id (meaning_of wd) (fst (fetchExamDefinitionWithFallback net wd w)))
            (take 10 (extract_words s n))"
    by (simp add: fetchExam_eq o_def del: length_take)
  then show ?thesis using handler_valid[OF assms, of net w] by blast
qed

lemma parse_no_first_element:
  assumes "index0 data = Inr v" and "nullish v"
  shows "parse_data data =
           Inr \<lparr>defn = Str ''No advanced definition found.'', partOfSpeech = Undefined,
                example = Undefined, icon = Undefined\<rparr>"
  using assms
  by (simp add: parse_data_def parse_definition_def parse_partOfSpeech_def parse_example_def
        and_then_def optional_def no_advanced_def)

lemma parse_null: "parse_data Null = Inl TypeError"
  by (simp add: parse_data_def parse_definition_def and_then_def)

lemma parse_no_meanings:
  assumes "map_of kvs ''meanings'' = None"
  shows "parse_data (Arr (Obj kvs # es)) = Inl TypeError"
  using assms by (simp add: parse_data_def parse_definition_def and_then_def optional_def)

lemma source_result_parsed:
  assumes "net (dictionary_url wd) = Resolves (Response True (Inr data))"
    and "parse_data data = Inr p"
  shows "source_result net wd = Some (p\<lparr>icon := icon_for wd\<rparr>)"
  using assms
  by (simp add: source_result_def fetchWithTimeout_try_def dictionary_source_def and_then_def)

text \<open>
  C4, as stated, fails for a payload that is malformed but that the parser reads without
  raising: when the dictionary answers with the empty object, the lookup of "data"
  returns an entry with the definition "No advanced definition found." and the icon of
  the table, not the sentinel, and stores it in the cache.
\<close>

theorem empty_object_payload_not_sentinel:
  "fst (fetchExamDefinitionWithFallback net_empty_object ''data'' world0) =
     Inr \<lparr>defn = Str ''No advanced definition found.'', partOfSpeech = Undefined,
          example = Undefined, icon = Str [CHR 0xF0, CHR 0x9F, CHR 0x93, CHR 0x88]\<rparr>
   \<and> fst (fetchExamDefinitionWithFallback net_empty_object ''data'' world0)
        \<noteq> Inr (sentinel ''data'')
   \<and> definitionCache (snd (fetchExamDefinitionWithFallback net_empty_object ''data'' world0))
        ''data'' =
       Some \<lparr>defn = Str ''No advanced definition found.'', partOfSpeech = Undefined,
             example = Undefined, icon = Str [CHR 0xF0, CHR 0x9F, CHR 0x93, CHR 0x88]\<rparr>"
proof -
  have p: "parse_data (Obj []) =
           Inr \<lparr>defn = Str ''No advanced definition found.'', partOfSpeech = Undefined,
                example = Undefined, icon = Undefined\<rparr>"
    by (rule parse_no_first_element[of _ Undefined]) simp_all
  have i: "icon_for ''data'' = Str [CHR 0xF0, CHR 0x9F, CHR 0x93, CHR 0x88]"
    by (simp add: icon_for_def examWordIcons_get_def examWordIcons_def toLowerCase_def
          to_lower_char_def)
  have n: "net_empty_object (dictionary_url ''data'') = Resolves (Response True (Inr (Obj [])))"
    by (simp add: net_empty_object_def)
  have sr: "source_result net_empty_object ''data'' =
          Some \<lparr>defn = Str ''No advanced definition found.'', partOfSpeech = Undefined,
                example = Undefined, icon = Str [CHR 0xF0, CHR 0x9F, CHR 0x93, CHR 0x88]\<rparr>"
    using source_result_parsed[where net = net_empty_object and wd = "''data''"
        and data = "Obj []", OF n p]
    by (simp add: i)
  have c: "definitionCache world0 ''data'' = None" by (simp add: world0_def)
  show ?thesis
    using c sr
    by (simp add: fetchExam_eq lookup_entry_def miss_result_def after_lookup_def sentinel_def)
qed

text \<open>
  C4, amended: a lookup never raises, its promise is always fulfilled. When the word is
  not in the cache and the request fails (the network rejects it, the timer aborts it,
  the status is not a success, the body is not JSON, or the parser raises on the
  payload, as it does on \<open>null\<close> and on a first element without meanings), the
  lookup returns the sentinel entry, whose definition starts with "No academic
  definition found for" and whose icon is the question mark, and leaves the cache as it
  was. A successful response whose payload the parser reads without raising is not a
  failure, however malformed the payload: the lookup returns what the parser gives,
  with the icon of the word, which is not the sentinel, and stores it in the cache; for
  a payload without a first element (an empty array, an object without a property 0, a
  number, a boolean, an empty string) that is the entry "No advanced definition found.".
  In a batch a lookup does not touch the others: the handler answers 200 and every
  entry is what the lookup of its word alone gives.
\<close>

theorem lookup_never_raises:
  "(\<exists>d w'. fetchExamDefinitionWithFallback net wd w = (Inr d, w'))
   \<and> (definitionCache w wd = None
        \<and> (net (dictionary_url wd) = Rejects e
            \<or> net (dictionary_url wd) = Resolves (Response False b)
            \<or> net (dictionary_url wd) = Resolves (Response True (Inl e))
            \<or> (net (dictionary_url wd) = Resolves (Response True (Inr data)) \<and> parse_data data = Inl e))
       \<longrightarrow> fst (fetchExamDefinitionWithFallback net wd w) = Inr (sentinel wd)
           \<and> definitionCache (snd (fetchExamDefinitionWithFallback net wd w)) = definitionCache w)
   \<and> defn (sentinel wd) = Str (''No academic definition found for '' @ wd @ ''.'')
   \<and> icon (sentinel wd) = Str question_icon
   \<and> parse_data Null = Inl TypeError
   \<and> (map_of kvs ''meanings'' = None \<longrightarrow> parse_data (Arr (Obj kvs # es)) = Inl TypeError)
   \<and> (definitionCache w wd = None
        \<and> net (dictionary_url wd) = Resolves (Response True (Inr data)) \<and> parse_data data = Inr p
       \<longrightarrow> fst (fetchExamDefinitionWithFallback net wd w) = Inr (p\<lparr>icon := icon_for wd\<rparr>)
           \<and> p\<lparr>icon := icon_for wd\<rparr> \<noteq> sentinel wd
           \<and> definitionCache (snd (fetchExamDefinitionWithFallback net wd w)) wd
                = Some (p\<lparr>icon := icon_for wd\<rparr>))
   \<and> (index0 data = Inr v \<and> nullish v
       \<longrightarrow> parse_data data =
             Inr \<lparr>defn = Str ''No advanced definition found.'', partOfSpeech = Undefined,
                  example = Undefined, icon = Undefined\<rparr>)
   \<and> (s \<noteq> [] \<and> n \<noteq> 0 \<and> distinct order
        \<and> set order = {..<length (take 10 (extract_words s n))}
       \<longrightarrow> (\<exists>ms w'.
             handler net order (post (Str s) (Some n)) w =
               Some (\<lparr>status = 200, headers = [],
                      body = MeaningsBody ms (length (extract_words s n))
                               (length (take 10 (extract_words s n)))\<rparr>, w')
           \<and> map Inr ms =
               map (\<lambda>wd. map_sum id (meaning_of wd) (fst (fetchExamDefinitionWithFallback net wd w)))
                 (take 10 (extract_words s n))))"
proof (intro conjI impI)
  show "\<exists>d w'. fetchExamDefinitionWithFallback net wd w = (Inr d, w')"
    by (rule fetchExam_fulfilled)
next
  assume a: "definitionCache w wd = None
        \<and> (net (dictionary_url wd) = Rejects e
            \<or> net (dictionary_url wd) = Resolves (Response False b)
            \<or> net (dictionary_url wd) = Resolves (Response True (Inl e))
            \<or> (net (dictionary_url wd) = Resolves (Response True (Inr data)) \<and> parse_data data = Inl e))"
  then have sr: "source_result net wd = None" by (intro try_fails) blast
  from a sr show "fst (fetchExamDefinitionWithFallback net wd w) = Inr (sentinel wd)"
    by (intro fetchExam_failure) simp_all
  from a sr show "definitionCache (snd (fetchExamDefinitionWithFallback net wd w)) = definitionCache w"
    by (intro fetchExam_failure) simp_all
next
  show "defn (sentinel wd) = Str (''No academic definition found for '' @ wd @ ''.'')"
    by (simp add: sentinel_def)
  show "icon (sentinel wd) = Str question_icon"
    by (simp add: sentinel_def)
  show "parse_data Null = Inl TypeError" by (rule parse_null)
next
  assume "map_of kvs ''meanings'' = None"
  then show "parse_data (Arr (Obj kvs # es)) = Inl TypeError" by (rule parse_no_meanings)
next
  assume a: "definitionCache w wd = None
        \<and> net (dictionary_url wd) = Resolves (Response True (Inr data)) \<and> parse_data data = Inr p"
  then have c: "definitionCache w wd = None"
    and sr: "source_result net wd = Some (p\<lparr>icon := icon_for wd\<rparr>)"
    using source_result_parsed[of net wd data p] by simp_all
  show "fst (fetchExamDefinitionWithFallback net wd w) = Inr (p\<lparr>icon := icon_for wd\<rparr>)"
    using c sr by (rule fetchExam_success)
  show "p\<lparr>icon := icon_for wd\<rparr> \<noteq> sentinel wd"
    using sr by (rule source_result_not_sentinel)
  show "definitionCache (snd (fetchExamDefinitionWithFallback net wd w)) wd
                = Some (p\<lparr>icon := icon_for wd\<rparr>)"
    using c sr by (simp add: fetchExam_cache)
next
  assume "index0 data = Inr v \<and> nullish v"
  then show "parse_data data =
             Inr \<lparr>defn = Str ''No advanced definition found.'', partOfSpeech = Undefined,
                  example = Undefined, icon = Undefined\<rparr>"
    using parse_no_first_element[of data v] by simp
next
  assume "s \<noteq> [] \<and> n \<noteq> 0 \<and> distinct order
        \<and> set order = {..<length (take 10 (extract_words s n))}"
  then show "\<exists>ms w'.
             handler net order (post (Str s) (Some n)) w =
               Some (\<lparr>status = 200, headers = [],
                      body = MeaningsBody ms (length (extract_words s n))
                               (length (take 10 (extract_words s n)))\<rparr>, w')
           \<and> map Inr ms =
               map (\<lambda>wd. map_sum id (meaning_of wd) (fst (fetchExamDefinitionWithFallback net wd w)))
                 (take 10 (extract_words s n))"
    by (intro handler_isolated) simp_all
qed

lemma example_mixed_batch:
  "\<exists>w'. handler net_mixed [1, 0] (post (Str ''Big data'') (Some 3)) world0 =
     Some (\<lparr>status = 200, headers = [],
            body = MeaningsBody
              [\<lparr>word = ''big'', meaning = Str ''No academic definition found for big.'',
                meaning_partOfSpeech = Undefined, meaning_example = Undefined,
                meaning_icon = Str question_icon\<rparr>,
               \<lparr>word = ''data'', meaning = Str ''facts and statistics'',
                meaning_partOfSpeech = Str ''noun'', meaning_example = Str ''there is little data'',
                meaning_icon = Str [CHR 0xF0, CHR 0x9F, CHR 0x93, CHR 0x88]\<rparr>] 2 2\<rparr>, w')"
proof -
  have h4: "set [1, 0::nat] = {..<length (take 10 (extract_words ''Big data'' 3))}"
    unfolding example_big_data by auto
  have big: "lookup_entry net_mixed world0 ''big'' = sentinel ''big''"
    by (simp add: lookup_entry_def world0_def miss_result_def source_result_def
          fetchWithTimeout_try_def net_mixed_def dictionary_source_def dictionary_url_def)
  have p: "parse_data example_payload =
            Inr \<lparr>defn = Str ''facts and statistics'', partOfSpeech = Str ''noun'',
                 example = Str ''there is little data'', icon = Undefined\<rparr>"
    by (simp add: parse_data_def parse_definition_def parse_partOfSpeech_def parse_example_def
          example_payload_def and_then_def optional_def)
  have i: "icon_for ''data'' = Str [CHR 0xF0, CHR 0x9F, CHR 0x93, CHR 0x88]"
    by (simp add: icon_for_def examWordIcons_get_def examWordIcons_def toLowerCase_def
          to_lower_char_def)
  have data: "lookup_entry net_mixed world0 ''data'' =
            \<lparr>defn = Str ''facts and statistics'', partOfSpeech = Str ''noun'',
              example = Str ''there is little data'',
              icon = Str [CHR 0xF0, CHR 0x9F, CHR 0x93, CHR 0x88]\<rparr>"
    by (simp add: lookup_entry_def world0_def miss_result_def source_result_def
          fetchWithTimeout_try_def net_mixed_def dictionary_source_def p i and_then_def)
  show ?thesis
    using handler_valid[OF _ _ _ h4, of net_mixed world0]
    by (simp add: example_big_data big data meaning_of_def sentinel_def)
qed

theorem lookup_never_raises_witness:
  "definitionCache world0 ''big'' = None
   \<and> net_mixed (dictionary_url ''big'') = Rejects AbortError
   \<and> fst (fetchExamDefinitionWithFallback net_mixed ''big'' world0) = Inr (sentinel ''big'')
   \<and> definitionCache (snd (fetchExamDefinitionWithFallback net_mixed ''big'' world0))
        = definitionCache world0
   \<and> map_of ([] :: (string \<times> jsval) list) ''meanings'' = None
   \<and> parse_data (Arr (Obj [] # [])) = Inl TypeError
   \<and> index0 (Arr []) = Inr Undefined \<and> nullish Undefined
   \<and> parse_data (Arr []) =
        Inr \<lparr>defn = Str ''No advanced definition found.'', partOfSpeech = Undefined,
             example = Undefined, icon = Undefined\<rparr>
   \<and> definitionCache world0 ''data'' = None
   \<and> net_empty_object (dictionary_url ''data'') = Resolves (Response True (Inr (Obj [])))
   \<and> parse_data (Obj []) =
        Inr \<lparr>defn = Str ''No advanced definition found.'', partOfSpeech = Undefined,
             example = Undefined, icon = Undefined\<rparr>
   \<and> fst (fetchExamDefinitionWithFallback net_empty_object ''data'' world0) =
        Inr (\<lparr>defn = Str ''No advanced definition found.'', partOfSpeech = Undefined,
              example = Undefined, icon = Undefined\<rparr>\<lparr>icon := icon_for ''data''\<rparr>)
   \<and> ''Big data'' \<noteq> [] \<and> (3::word_size) \<noteq> 0 \<and> distinct [1, 0::nat]
   \<and> set [1, 0::nat] = {..<length (take 10 (extract_words ''Big data'' 3))}
   \<and> (\<exists>ms w'.
         handler net_mixed [1, 0] (post (Str ''Big data'') (Some 3)) world0 =
           Some (\<lparr>status = 200, headers = [],
                  body = MeaningsBody ms (length (extract_words ''Big data'' 3))
                           (length (take 10 (extract_words ''Big data'' 3)))\<rparr>, w')
         \<and> map Inr ms =
             map (\<lambda>wd. map_sum id (meaning_of wd)
                          (fst (fetchExamDefinitionWithFallback net_mixed wd world0)))
               (take 10 (extract_words ''Big data'' 3)))"
proof -
  let ?dflt = "\<lparr>defn = Str ''No advanced definition found.'', partOfSpeech = Undefined,
             example = Undefined, icon = Undefined\<rparr>"
  have c: "definitionCache world0 ''big'' = None" by (simp add: world0_def)
  have f: "net_mixed (dictionary_url ''big'') = Rejects AbortError"
    by (simp add: net_mixed_def dictionary_url_def)
  have m: "map_of ([] :: (string \<times> jsval) list) ''meanings'' = None" by simp
  have i0: "index0 (Arr []) = Inr Undefined \<and> nullish Undefined" by simp
  have c2: "definitionCache world0 ''data'' = None" by (simp add: world0_def)
  have n2: "net_empty_object (dictionary_url ''data'') = Resolves (Response True (Inr (Obj [])))"
    by (simp add: net_empty_object_def)
  have j0: "index0 (Obj []) = Inr Undefined \<and> nullish Undefined" by simp
  have h1: "''Big data'' \<noteq> []" by simp
  have h2: "(3::word_size) \<noteq> 0" by simp
  have h3: "distinct [1, 0::nat]" by simp
  have h4: "set [1, 0::nat] = {..<length (take 10 (extract_words ''Big data'' 3))}"
    unfolding example_big_data by auto
  note t1 = lookup_never_raises[where net = net_mixed and wd = "''big''" and w = world0
      and e = AbortError and kvs = "[]" and es = "[]" and data = "Arr []" and v = Undefined
      and s = "''Big data''" and n = 3 and order = "[1, 0]"]
  note t2 = lookup_never_raises[where net = net_empty_object and wd = "''data''" and w = world0
      and data = "Obj []" and v = Undefined and p = ?dflt]
  have a1: "fst (fetchExamDefinitionWithFallback net_mixed ''big'' world0) = Inr (sentinel ''big'')"
    and a2: "definitionCache (snd (fetchExamDefinitionWithFallback net_mixed ''big'' world0))
        = definitionCache world0"
    and a3: "parse_data (Arr (Obj [] # [])) = Inl TypeError"
    and a4: "parse_data (Arr []) = Inr ?dflt"
    and a5: "\<exists>ms w'.
         handler net_mixed [1, 0] (post (Str ''Big data'') (Some 3)) world0 =
           Some (\<lparr>status = 200, headers = [],
                  body = MeaningsBody ms (length (extract_words ''Big data'' 3))
                           (length (take 10 (extract_words ''Big data'' 3)))\<rparr>, w')
         \<and> map Inr ms =
             map (\<lambda>wd. map_sum id (meaning_of wd)
                          (fst (fetchExamDefinitionWithFallback net_mixed wd world0)))
               (take 10 (extract_words ''Big data'' 3))"
    using t1 c f m i0 h1 h2 h3 h4 by blast+
  have b1: "parse_data (Obj []) = Inr ?dflt" using t2 j0 by blast
  have b2: "fst (fetchExamDefinitionWithFallback net_empty_object ''data'' world0) =
        Inr (?dflt\<lparr>icon := icon_for ''data''\<rparr>)"
    using t2 c2 n2 b1 by blast
  show ?thesis
    using c f a1 a2 m a3 i0 a4 c2 n2 b1 b2 h1 h2 h3 h4 a5 by (simp only: simp_thms)
qed

lemma two_requests:
  assumes r1: "sa \<noteq> []" "na \<noteq> 0" "distinct oa"
      "set oa = {..<length (take 10 (extract_words sa na))}"
    and r2: "sb \<noteq> []" "nb \<noteq> 0" "distinct ob"
      "set ob = {..<length (take 10 (extract_words sb nb))}"
    and m1: "wd \<in> set (take 10 (extract_words sa na))"
    and m2: "wd \<in> set (take 10 (extract_words sb nb))"
    and c: "definitionCache w wd = None"
  shows "\<exists>r1 w1 r2 w2.
           handler neta oa (post (Str sa) (Some na)) w = Some (r1, w1)
         \<and> handler netb ob (post (Str sb) (Some nb)) w1 = Some (r2, w2)
         \<and> definitionCache w1 wd = source_result neta wd
         \<and> fetched w1 (dictionary_url wd) = fetched w (dictionary_url wd) + 1
         \<and> fetched w2 (dictionary_url wd) =
             fetched w (dictionary_url wd) + (if source_result neta wd = None then 2 else 1)"
proof -
  let ?ws1 = "take 10 (extract_words sa na)"
  let ?ws2 = "take 10 (extract_words sb nb)"
  let ?w1 = "after_batch neta oa ?ws1 w"
  let ?w2 = "after_batch netb ob ?ws2 ?w1"
  have d1: "distinct ?ws1" and d2: "distinct ?ws2"
    by (simp_all add: distinct_extract_words)
  have c1: "definitionCache ?w1 wd = source_result neta wd"
    using m1 c by (simp only: after_batch_cache[OF r1(4)]) (simp del: length_take)
  have f1: "fetched ?w1 (dictionary_url wd) = fetched w (dictionary_url wd) + 1"
    using m1 c by (simp only: after_batch_fetched[OF r1(3,4) d1]) simp
  have f2: "fetched ?w2 (dictionary_url wd) =
              fetched ?w1 (dictionary_url wd) + (if source_result neta wd = None then 1 else 0)"
    using m2 c1 by (simp only: after_batch_fetched[OF r2(3,4) d2]) simp
  have "fetched ?w2 (dictionary_url wd) =
             fetched w (dictionary_url wd) + (if source_result neta wd = None then 2 else 1)"
    using f1 f2 by simp
  then show ?thesis
    using handler_valid[OF r1, of neta w] handler_valid[OF r2, of netb ?w1] c1 f1 by blast
qed

text \<open>
  C5: a lookup changes the cache only at its own word, only when the word was not
  cached and \<open>fetchWithTimeout\<close> returned a definition, and what it stores is the entry
  it returns. An entry it stores is never a sentinel. A lookup that fails leaves the
  cache as it was, so the next lookup of the word sends a request again, whatever the
  network does then; the same holds for two requests to the handler that both have
  the word among their first ten candidates.
\<close>

theorem cache_stores_successes_only:
  "(\<forall>key. definitionCache (snd (fetchExamDefinitionWithFallback net wd w)) key = definitionCache w key
        \<or> (key = wd \<and> definitionCache w wd = None
            \<and> (\<exists>d. fst (fetchWithTimeout net dictionary_source wd w) = Inr (Some d)
                  \<and> definitionCache (snd (fetchExamDefinitionWithFallback net wd w)) wd
                      = Some (d\<lparr>icon := icon_for wd\<rparr>)
                  \<and> fst (fetchExamDefinitionWithFallback net wd w)
                      = Inr (d\<lparr>icon := icon_for wd\<rparr>))))
   \<and> (\<forall>key e x. definitionCache (snd (fetchExamDefinitionWithFallback net wd w)) key = Some e
                 \<and> definitionCache w key \<noteq> Some e \<longrightarrow> e \<noteq> sentinel x)
   \<and> (definitionCache w wd = None \<and> fst (fetchWithTimeout net dictionary_source wd w) = Inr None
       \<longrightarrow> fst (fetchExamDefinitionWithFallback net wd w) = Inr (sentinel wd)
         \<and> definitionCache (snd (fetchExamDefinitionWithFallback net wd w)) = definitionCache w
         \<and> fetched (snd (fetchExamDefinitionWithFallback net wd w)) (dictionary_url wd)
             = fetched w (dictionary_url wd) + 1
         \<and> fetched (snd (fetchExamDefinitionWithFallback netb wd
                            (snd (fetchExamDefinitionWithFallback net wd w)))) (dictionary_url wd)
             = fetched w (dictionary_url wd) + 2)
   \<and> (sa \<noteq> [] \<and> na \<noteq> 0 \<and> distinct oa \<and> set oa = {..<length (take 10 (extract_words sa na))}
       \<and> sb \<noteq> [] \<and> nb \<noteq> 0 \<and> distinct ob \<and> set ob = {..<length (take 10 (extract_words sb nb))}
       \<and> wd \<in> set (take 10 (extract_words sa na)) \<and> wd \<in> set (take 10 (extract_words sb nb))
       \<and> definitionCache w wd = None
       \<and> fst (fetchWithTimeout net dictionary_source wd w) = Inr None
       \<longrightarrow> (\<exists>r1 w1 r2 w2.
               handler net oa (post (Str sa) (Some na)) w = Some (r1, w1)
             \<and> handler netb ob (post (Str sb) (Some nb)) w1 = Some (r2, w2)
             \<and> definitionCache w1 wd = None
             \<and> fetched w1 (dictionary_url wd) = fetched w (dictionary_url wd) + 1
             \<and> fetched w2 (dictionary_url wd) = fetched w (dictionary_url wd) + 2))"
proof (intro conjI allI impI)
  fix key
  show "definitionCache (snd (fetchExamDefinitionWithFallback net wd w)) key = definitionCache w key
        \<or> (key = wd \<and> definitionCache w wd = None
            \<and> (\<exists>d. fst (fetchWithTimeout net dictionary_source wd w) = Inr (Some d)
                  \<and> definitionCache (snd (fetchExamDefinitionWithFallback net wd w)) wd
                      = Some (d\<lparr>icon := icon_for wd\<rparr>)
                  \<and> fst (fetchExamDefinitionWithFallback net wd w)
                      = Inr (d\<lparr>icon := icon_for wd\<rparr>)))"
  proof (cases "wd = key \<and> definitionCache w wd = None \<and> source_result net key \<noteq> None")
    case False
    then show ?thesis by (simp only: fetchExam_cache if_False simp_thms)
  next
    case True
    then have k: "key = wd" and c: "definitionCache w wd = None" by blast+
    from True obtain d' where "source_result net key = Some d'" by blast
    then have sr: "source_result net wd = Some d'" unfolding k .
    then obtain d where d: "fst (fetchWithTimeout net dictionary_source wd w) = Inr (Some d)"
      "d' = d\<lparr>icon := icon_for wd\<rparr>"
      using source_result_Some[of net wd d' w] by blast
    have "definitionCache (snd (fetchExamDefinitionWithFallback net wd w)) wd = Some d'"
      using c sr by (simp add: fetchExam_cache)
    moreover have "fst (fetchExamDefinitionWithFallback net wd w) = Inr d'"
      using c sr by (rule fetchExam_success)
    ultimately show ?thesis using k c d by blast
  qed
next
  fix key e x
  assume a: "definitionCache (snd (fetchExamDefinitionWithFallback net wd w)) key = Some e
                 \<and> definitionCache w key \<noteq> Some e"
  then have "source_result net key = Some e"
    by (auto simp: fetchExam_cache split: if_splits)
  then show "e \<noteq> sentinel x" by (rule source_result_not_sentinel)
next
  assume a: "definitionCache w wd = None \<and> fst (fetchWithTimeout net dictionary_source wd w) = Inr None"
  then have c: "definitionCache w wd = None" and sr: "source_result net wd = None"
    using source_result_None[of net wd w] by simp_all
  show "fst (fetchExamDefinitionWithFallback net wd w) = Inr (sentinel wd)"
    using c sr by (rule fetchExam_failure)
  show same: "definitionCache (snd (fetchExamDefinitionWithFallback net wd w)) = definitionCache w"
    using c sr by (rule fetchExam_failure)
  show one: "fetched (snd (fetchExamDefinitionWithFallback net wd w)) (dictionary_url wd)
             = fetched w (dictionary_url wd) + 1"
    using c sr by (rule fetchExam_failure)
  show "fetched (snd (fetchExamDefinitionWithFallback netb wd
                            (snd (fetchExamDefinitionWithFallback net wd w)))) (dictionary_url wd)
             = fetched w (dictionary_url wd) + 2"
    using c one unfolding fetchExam_fetched[of netb] same by simp
next
  assume a: "sa \<noteq> [] \<and> na \<noteq> 0 \<and> distinct oa \<and> set oa = {..<length (take 10 (extract_words sa na))}
       \<and> sb \<noteq> [] \<and> nb \<noteq> 0 \<and> distinct ob \<and> set ob = {..<length (take 10 (extract_words sb nb))}
       \<and> wd \<in> set (take 10 (extract_words sa na)) \<and> wd \<in> set (take 10 (extract_words sb nb))
       \<and> definitionCache w wd = None
       \<and> fst (fetchWithTimeout net dictionary_source wd w) = Inr None"
  then have sr: "source_result net wd = None"
    using source_result_None[of net wd w] by simp
  have "\<exists>r1 w1 r2 w2.
           handler net oa (post (Str sa) (Some na)) w = Some (r1, w1)
         \<and> handler netb ob (post (Str sb) (Some nb)) w1 = Some (r2, w2)
         \<and> definitionCache w1 wd = source_result net wd
         \<and> fetched w1 (dictionary_url wd) = fetched w (dictionary_url wd) + 1
         \<and> fetched w2 (dictionary_url wd) =
             fetched w (dictionary_url wd) + (if source_result net wd = None then 2 else 1)"
    using a by (intro two_requests) simp_all
  then show "\<exists>r1 w1 r2 w2.
               handler net oa (post (Str sa) (Some na)) w = Some (r1, w1)
             \<and> handler netb ob (post (Str sb) (Some nb)) w1 = Some (r2, w2)
             \<and> definitionCache w1 wd = None
             \<and> fetched w1 (dictionary_url wd) = fetched w (dictionary_url wd) + 1
             \<and> fetched w2 (dictionary_url wd) = fetched w (dictionary_url wd) + 2"
    unfolding sr by (simp only: if_True simp_thms)
qed

lemma example_data_word: "extract_words ''data'' 4 = [''data'']"
  by code_simp

lemma net_down_fails: "fst (fetchWithTimeout net_down dictionary_source wd w) = Inr None"
  by (simp add: fetchWithTimeout_fst fetchWithTimeout_try_def net_down_def)

lemma parse_example_payload:
  "parse_data example_payload =
     Inr \<lparr>defn = Str ''facts and statistics'', partOfSpeech = Str ''noun'',
          example = Str ''there is little data'', icon = Undefined\<rparr>"
  by (simp add: parse_data_def parse_definition_def parse_partOfSpeech_def parse_example_def
        example_payload_def and_then_def optional_def)

lemma net_up_succeeds:
  "fst (fetchWithTimeout net_up dictionary_source wd w) =
     Inr (Some \<lparr>defn = Str ''facts and statistics'', partOfSpeech = Str ''noun'',
                 example = Str ''there is little data'', icon = Undefined\<rparr>)"
  by (simp add: fetchWithTimeout_fst fetchWithTimeout_try_def net_up_def parse_example_payload
        dictionary_source_def and_then_def)

theorem cache_stores_successes_only_witness:
  "definitionCache world0 ''data'' = None
   \<and> fst (fetchWithTimeout net_down dictionary_source ''data'' world0) = Inr None
   \<and> fst (fetchExamDefinitionWithFallback net_down ''data'' world0) = Inr (sentinel ''data'')
   \<and> definitionCache (snd (fetchExamDefinitionWithFallback net_down ''data'' world0))
        = definitionCache world0
   \<and> fetched (snd (fetchExamDefinitionWithFallback net_up ''data''
                      (snd (fetchExamDefinitionWithFallback net_down ''data'' world0))))
        (dictionary_url ''data'')
        = fetched world0 (dictionary_url ''data'') + 2
   \<and> ''Big data'' \<noteq> [] \<and> (3::word_size) \<noteq> 0 \<and> distinct [1, 0::nat] \<and> distinct [0, 1::nat]
   \<and> set [1, 0::nat] = {..<length (take 10 (extract_words ''Big data'' 3))}
   \<and> set [0, 1::nat] = {..<length (take 10 (extract_words ''Big data'' 3))}
   \<and> ''data'' \<in> set (take 10 (extract_words ''Big data'' 3))
   \<and> (\<exists>r1 w1 r2 w2.
         handler net_down [1, 0] (post (Str ''Big data'') (Some 3)) world0 = Some (r1, w1)
       \<and> handler net_up [0, 1] (post (Str ''Big data'') (Some 3)) w1 = Some (r2, w2)
       \<and> definitionCache w1 ''data'' = None
       \<and> fetched w1 (dictionary_url ''data'') = fetched world0 (dictionary_url ''data'') + 1
       \<and> fetched w2 (dictionary_url ''data'') = fetched world0 (dictionary_url ''data'') + 2)"
proof -
  have c: "definitionCache world0 ''data'' = None" by (simp add: world0_def)
  have f: "fst (fetchWithTimeout net_down dictionary_source ''data'' world0) = Inr None"
    by (rule net_down_fails)
  have h1: "''Big data'' \<noteq> []" by simp
  have h2: "(3::word_size) \<noteq> 0" by simp
  have h3: "distinct [1, 0::nat]" "distinct [0, 1::nat]" by simp_all
  have h4: "set [1, 0::nat] = {..<length (take 10 (extract_words ''Big data'' 3))}"
    unfolding example_big_data by auto
  have h5: "set [0, 1::nat] = {..<length (take 10 (extract_words ''Big data'' 3))}"
    unfolding example_big_data by auto
  have m: "''data'' \<in> set (take 10 (extract_words ''Big data'' 3))"
    unfolding example_big_data by simp
  show ?thesis
    using c f h1 h2 h3 h4 h5 m
      cache_stores_successes_only[where net = net_down and wd = "''data''" and w = world0
         and netb = net_up and sa = "''Big data''" and na = 3 and oa = "[1, 0]"
         and sb = "''Big data''" and nb = 3 and ob = "[0, 1]"]
    by (simp only: simp_thms)
qed

text \<open>
  C6, as stated, fails when the first lookup fails: two requests in a row for the word
  "data", with the network down, send two requests to the dictionary.
\<close>

theorem failed_lookup_fetched_again:
  "handler net_down [0] (post (Str ''data'') (Some 4)) world0 \<noteq> None
   \<and> handler net_down [0] (post (Str ''data'') (Some 4))
        (snd (the (handler net_down [0] (post (Str ''data'') (Some 4)) world0))) \<noteq> None
   \<and> fetched (snd (the (handler net_down [0] (post (Str ''data'') (Some 4))
                 (snd (the (handler net_down [0] (post (Str ''data'') (Some 4)) world0))))))
        (dictionary_url ''data'') = 2"
proof -
  have h4: "set [0::nat] = {..<length (take 10 (extract_words ''data'' 4))}"
    unfolding example_data_word by auto
  have m: "''data'' \<in> set (take 10 (extract_words ''data'' 4))"
    unfolding example_data_word by simp
  have c: "definitionCache world0 ''data'' = None" by (simp add: world0_def)
  have sr: "source_result net_down ''data'' = None"
    using net_down_fails[of "''data''" world0] by (simp only: source_result_None[of _ _ world0])
  obtain r1 w1 r2 w2 where
    a: "handler net_down [0] (post (Str ''data'') (Some 4)) world0 = Some (r1, w1)"
    and b: "handler net_down [0] (post (Str ''data'') (Some 4)) w1 = Some (r2, w2)"
    and n: "fetched w2 (dictionary_url ''data'') =
             fetched world0 (dictionary_url ''data'') + (if source_result net_down ''data'' = None then 2 else 1)"
    using two_requests[OF _ _ _ h4 _ _ _ h4 m m c, where neta = net_down and netb = net_down]
    by auto
  have "fetched w2 (dictionary_url ''data'') = 2"
    using n sr by (simp add: world0_def)
  then show ?thesis using a b by simp
qed

text \<open>
  C6, amended: a word that is in the cache is answered from the cache, the world stays
  as it was and so no request is sent. Two requests to the handler in a row that both
  have a word among their first ten candidates, the word not being cached before and
  the first lookup giving a definition, send exactly one request for the word: the
  first stores the entry, the second is served from the cache.
\<close>

theorem cached_word_fetched_once:
  "(definitionCache w wd = Some d \<longrightarrow> fetchExamDefinitionWithFallback net wd w = (Inr d, w))
   \<and> (sa \<noteq> [] \<and> na \<noteq> 0 \<and> distinct oa \<and> set oa = {..<length (take 10 (extract_words sa na))}
       \<and> sb \<noteq> [] \<and> nb \<noteq> 0 \<and> distinct ob \<and> set ob = {..<length (take 10 (extract_words sb nb))}
       \<and> wd \<in> set (take 10 (extract_words sa na)) \<and> wd \<in> set (take 10 (extract_words sb nb))
       \<and> definitionCache w wd = None
       \<and> fst (fetchWithTimeout net dictionary_source wd w) = Inr (Some d)
       \<longrightarrow> (\<exists>r1 w1 r2 w2.
               handler net oa (post (Str sa) (Some na)) w = Some (r1, w1)
             \<and> handler netb ob (post (Str sb) (Some nb)) w1 = Some (r2, w2)
             \<and> definitionCache w1 wd = Some (d\<lparr>icon := icon_for wd\<rparr>)
             \<and> fetched w1 (dictionary_url wd) = fetched w (dictionary_url wd) + 1
             \<and> fetched w2 (dictionary_url wd) = fetched w (dictionary_url wd) + 1))"
proof (intro conjI impI)
  assume "definitionCache w wd = Some d"
  then show "fetchExamDefinitionWithFallback net wd w = (Inr d, w)" by (rule fetchExam_hit)
next
  assume a: "sa \<noteq> [] \<and> na \<noteq> 0 \<and> distinct oa \<and> set oa = {..<length (take 10 (extract_words sa na))}
       \<and> sb \<noteq> [] \<and> nb \<noteq> 0 \<and> distinct ob \<and> set ob = {..<length (take 10 (extract_words sb nb))}
       \<and> wd \<in> set (take 10 (extract_words sa na)) \<and> wd \<in> set (take 10 (extract_words sb nb))
       \<and> definitionCache w wd = None
       \<and> fst (fetchWithTimeout net dictionary_source wd w) = Inr (Some d)"
  then have sr: "source_result net wd = Some (d\<lparr>icon := icon_for wd\<rparr>)"
    using source_result_Some[of net wd "d\<lparr>icon := icon_for wd\<rparr>" w] by blast
  have "\<exists>r1 w1 r2 w2.
           handler net oa (post (Str sa) (Some na)) w = Some (r1, w1)
         \<and> handler netb ob (post (Str sb) (Some nb)) w1 = Some (r2, w2)
         \<and> definitionCache w1 wd = source_result net wd
         \<and> fetched w1 (dictionary_url wd) = fetched w (dictionary_url wd) + 1
         \<and> fetched w2 (dictionary_url wd) =
             fetched w (dictionary_url wd) + (if source_result net wd = None then 2 else 1)"
    using a by (intro two_requests) simp_all
  then show "\<exists>r1 w1 r2 w2.
               handler net oa (post (Str sa) (Some na)) w = Some (r1, w1)
             \<and> handler netb ob (post (Str sb) (Some nb)) w1 = Some (r2, w2)
             \<and> definitionCache w1 wd = Some (d\<lparr>icon := icon_for wd\<rparr>)
             \<and> fetched w1 (dictionary_url wd) = fetched w (dictionary_url wd) + 1
             \<and> fetched w2 (dictionary_url wd) = fetched w (dictionary_url wd) + 1"
    unfolding sr by (simp only: option.distinct if_False simp_thms)
qed

theorem cached_word_fetched_once_witness:
  "''Big data'' \<noteq> [] \<and> (3::word_size) \<noteq> 0 \<and> distinct [1, 0::nat] \<and> distinct [0, 1::nat]
   \<and> set [1, 0::nat] = {..<length (take 10 (extract_words ''Big data'' 3))}
   \<and> set [0, 1::nat] = {..<length (take 10 (extract_words ''Big data'' 3))}
   \<and> ''data'' \<in> set (take 10 (extract_words ''Big data'' 3))
   \<and> definitionCache world0 ''data'' = None
   \<and> fst (fetchWithTimeout net_up dictionary_source ''data'' world0) =
        Inr (Some \<lparr>defn = Str ''facts and statistics'', partOfSpeech = Str ''noun'',
                    example = Str ''there is little data'', icon = Undefined\<rparr>)
   \<and> (\<exists>r1 w1 r2 w2.
         handler net_up [1, 0] (post (Str ''Big data'') (Some 3)) world0 = Some (r1, w1)
       \<and> handler net_down [0, 1] (post (Str ''Big data'') (Some 3)) w1 = Some (r2, w2)
       \<and> definitionCache w1 ''data'' =
           Some (\<lparr>defn = Str ''facts and statistics'', partOfSpeech = Str ''noun'',
                   example = Str ''there is little data'', icon = Undefined\<rparr>
                 \<lparr>icon := icon_for ''data''\<rparr>)
       \<and> fetched w1 (dictionary_url ''data'') = fetched world0 (dictionary_url ''data'') + 1
       \<and> fetched w2 (dictionary_url ''data'') = fetched world0 (dictionary_url ''data'') + 1)"
proof -
  have c: "definitionCache world0 ''data'' = None" by (simp add: world0_def)
  have f: "fst (fetchWithTimeout net_up dictionary_source ''data'' world0) =
        Inr (Some \<lparr>defn = Str ''facts and statistics'', partOfSpeech = Str ''noun'',
                    example = Str ''there is little data'', icon = Undefined\<rparr>)"
    by (rule net_up_succeeds)
  have h1: "''Big data'' \<noteq> []" by simp
  have h2: "(3::word_size) \<noteq> 0" by simp
  have h3: "distinct [1, 0::nat]" "distinct [0, 1::nat]" by simp_all
  have h4: "set [1, 0::nat] = {..<length (take 10 (extract_words ''Big data'' 3))}"
    unfolding example_big_data by auto
  have h5: "set [0, 1::nat] = {..<length (take 10 (extract_words ''Big data'' 3))}"
    unfolding example_big_data by auto
  have m: "''data'' \<in> set (take 10 (extract_words ''Big data'' 3))"
    unfolding example_big_data by simp
  show ?thesis
    using c f h1 h2 h3 h4 h5 m
      cached_word_fetched_once[where w = world0 and wd = "''data''" and net = net_up
         and sa = "''Big data''" and na = 3 and oa = "[1, 0]"
         and sb = "''Big data''" and nb = 3 and ob = "[0, 1]" and netb = net_down
         and d = "\<lparr>defn = Str ''facts and statistics'', partOfSpeech = Str ''noun'',
                    example = Str ''there is little data'', icon = Undefined\<rparr>"]
    by (simp only: simp_thms)
qed

lemma parse_not_found:
  assumes "map_of e ''meanings'' = Some (Arr (Obj m # ms))"
    and "map_of m ''definitions'' = Some (Arr (Obj d # ds))"
    and "map_of d ''definition'' = None \<or> map_of d ''definition'' = Some (Str [])"
  shows "\<exists>p x. parse_data (Arr (Obj e # es)) =
           Inr \<lparr>defn = Str ''No advanced definition found.'', partOfSpeech = p, example = x,
                icon = Undefined\<rparr>"
proof -
  have d: "parse_definition (Arr (Obj e # es)) =
             Inr (case map_of d ''definition'' of None \<Rightarrow> Undefined | Some v \<Rightarrow> v)"
    using assms(1,2) by (simp add: parse_definition_def and_then_def optional_def)
  have p: "parse_partOfSpeech (Arr (Obj e # es)) =
             Inr (case map_of m ''partOfSpeech'' of None \<Rightarrow> Undefined | Some v \<Rightarrow> v)"
    using assms(1) by (simp add: parse_partOfSpeech_def and_then_def optional_def)
  have x: "parse_example (Arr (Obj e # es)) =
             Inr (case map_of d ''example'' of None \<Rightarrow> Undefined | Some v \<Rightarrow> v)"
    using assms(1,2) by (simp add: parse_example_def and_then_def optional_def)
  have "\<not> truthy (case map_of d ''definition'' of None \<Rightarrow> Undefined | Some v \<Rightarrow> v)"
    using assms(3) by auto
  then show ?thesis
    by (simp add: parse_data_def d p x and_then_def no_advanced_def)
qed

text \<open>
  C10: when the response is a success and its payload has a first sense with a first
  definition whose text is absent or empty, the lookup returns an entry with the
  definition "No advanced definition found.", which is not the sentinel. The entry is
  stored in the cache, one request has been sent, and every later lookup of the word
  returns the stored entry without a request, whatever the network does then.
\<close>

theorem not_found_definition_is_cached:
  assumes "definitionCache w wd = None"
    and "net (dictionary_url wd) = Resolves (Response True (Inr (Arr (Obj e # es))))"
    and "map_of e ''meanings'' = Some (Arr (Obj m # ms))"
    and "map_of m ''definitions'' = Some (Arr (Obj d # ds))"
    and "map_of d ''definition'' = None \<or> map_of d ''definition'' = Some (Str [])"
  shows "\<exists>entry w'.
           fetchExamDefinitionWithFallback net wd w = (Inr entry, w')
         \<and> defn entry = Str ''No advanced definition found.''
         \<and> defn entry \<noteq> defn (sentinel wd)
         \<and> entry \<noteq> sentinel wd
         \<and> definitionCache w' wd = Some entry
         \<and> fetched w' (dictionary_url wd) = fetched w (dictionary_url wd) + 1
         \<and> fetchExamDefinitionWithFallback netb wd w' = (Inr entry, w')"
proof -
  obtain p x where pd: "parse_data (Arr (Obj e # es)) =
           Inr \<lparr>defn = Str ''No advanced definition found.'', partOfSpeech = p, example = x,
                icon = Undefined\<rparr>"
    using parse_not_found[OF assms(3,4,5)] by blast
  define entry where "entry = \<lparr>defn = Str ''No advanced definition found.'', partOfSpeech = p,
                                example = x, icon = icon_for wd\<rparr>"
  have sr: "source_result net wd = Some entry"
    by (simp add: source_result_def fetchWithTimeout_try_def dictionary_source_def assms(2) pd
          and_then_def entry_def)
  let ?w' = "snd (fetchExamDefinitionWithFallback net wd w)"
  have r: "fst (fetchExamDefinitionWithFallback net wd w) = Inr entry"
    using assms(1) sr by (rule fetchExam_success)
  have c: "definitionCache ?w' wd = Some entry"
    using assms(1) sr by (simp add: fetchExam_cache)
  have f: "fetched ?w' (dictionary_url wd) = fetched w (dictionary_url wd) + 1"
    using assms(1) by (simp add: fetchExam_fetched)
  have again: "fetchExamDefinitionWithFallback netb wd ?w' = (Inr entry, ?w')"
    using c by (rule fetchExam_hit)
  have ne: "defn entry \<noteq> defn (sentinel wd)"
    by (simp add: entry_def sentinel_def)
  then have ne': "entry \<noteq> sentinel wd" by auto
  have "defn entry = Str ''No advanced definition found.''" by (simp add: entry_def)
  moreover have "fetchExamDefinitionWithFallback net wd w = (Inr entry, ?w')"
    using r by (simp add: prod_eq_iff)
  ultimately show ?thesis using ne ne' c f again by blast
qed

theorem not_found_definition_is_cached_witness:
  "definitionCache world0 ''zyzzyva'' = None
   \<and> net_not_found (dictionary_url ''zyzzyva'') =
        Resolves (Response True (Inr (Arr (Obj [(''meanings'',
                Arr [Obj [(''partOfSpeech'', Str ''noun''),
                          (''definitions'', Arr [Obj [(''definition'', Str [])]])]])] # []))))
   \<and> map_of [(''meanings'',
                Arr [Obj [(''partOfSpeech'', Str ''noun''),
                          (''definitions'', Arr [Obj [(''definition'', Str [])]])]])] ''meanings''
        = Some (Arr (Obj [(''partOfSpeech'', Str ''noun''),
                          (''definitions'', Arr [Obj [(''definition'', Str [])]])] # []))
   \<and> map_of [(''partOfSpeech'', Str ''noun''),
              (''definitions'', Arr [Obj [(''definition'', Str [])]])] ''definitions''
        = Some (Arr (Obj [(''definition'', Str [])] # []))
   \<and> (map_of [(''definition'', Str [])] ''definition'' = None
        \<or> map_of [(''definition'', Str [])] ''definition'' = Some (Str []))
   \<and> (\<exists>entry w'.
           fetchExamDefinitionWithFallback net_not_found ''zyzzyva'' world0 = (Inr entry, w')
         \<and> defn entry = Str ''No advanced definition found.''
         \<and> defn entry \<noteq> defn (sentinel ''zyzzyva'')
         \<and> entry \<noteq> sentinel ''zyzzyva''
         \<and> definitionCache w' ''zyzzyva'' = Some entry
         \<and> fetched w' (dictionary_url ''zyzzyva'') = fetched world0 (dictionary_url ''zyzzyva'') + 1
         \<and> fetchExamDefinitionWithFallback net_down ''zyzzyva'' w' = (Inr entry, w'))"
proof -
  have h1: "definitionCache world0 ''zyzzyva'' = None" by (simp add: world0_def)
  have h2: "net_not_found (dictionary_url ''zyzzyva'') =
        Resolves (Response True (Inr (Arr (Obj [(''meanings'',
                Arr [Obj [(''partOfSpeech'', Str ''noun''),
                          (''definitions'', Arr [Obj [(''definition'', Str [])]])]])] # []))))"
    by (simp add: net_not_found_def not_found_payload_def)
  have h3: "map_of [(''meanings'',
                Arr [Obj [(''partOfSpeech'', Str ''noun''),
                          (''definitions'', Arr [Obj [(''definition'', Str [])]])]])] ''meanings''
        = Some (Arr (Obj [(''partOfSpeech'', Str ''noun''),
                          (''definitions'', Arr [Obj [(''definition'', Str [])]])] # []))"
    by simp
  have h4: "map_of [(''partOfSpeech'', Str ''noun''),
              (''definitions'', Arr [Obj [(''definition'', Str [])]])] ''definitions''
        = Some (Arr (Obj [(''definition'', Str [])] # []))"
    by simp
  have h5: "map_of [(''definition'', Str [])] ''definition'' = None
        \<or> map_of [(''definition'', Str [])] ''definition'' = Some (Str [])"
    by simp
  show ?thesis
    using h1 h2 h3 h4 h5
      not_found_definition_is_cached[where w = world0 and wd = "''zyzzyva''"
        and net = net_not_found and netb = net_down and es = "[]" and ms = "[]" and ds = "[]"
        and e = "[(''meanings'',
                Arr [Obj [(''partOfSpeech'', Str ''noun''),
                          (''definitions'', Arr [Obj [(''definition'', Str [])]])]])]"
        and m = "[(''partOfSpeech'', Str ''noun''),
                  (''definitions'', Arr [Obj [(''definition'', Str [])]])]"
        and d = "[(''definition'', Str [])]", OF h1 h2 h3 h4 h5]
    by (simp only: simp_thms)
qed

end
